theory Spec2Isabelle
  imports Complex_Main
begin

section \<open>The surrogate model and the RL environment of surrogate\_model\_verification.py\<close>

text \<open>
  The development embeds the simulation core of
  \<^verbatim>\<open>2_surrogate_model/surrogate_model_verification.py\<close>: the two pharmacokinetic
  integrators \<^verbatim>\<open>RL_dNN.f_CSF1RI\<close> and \<^verbatim>\<open>RL_dNN.f_IGF1RI\<close>, the feature map
  \<^verbatim>\<open>RL_dNN.net_u_CC\<close>, the prediction \<^verbatim>\<open>RL_dNN.predict_DRL_FP\<close>, and the
  environment \<^verbatim>\<open>Env\<close> with \<^verbatim>\<open>reset\<close> and \<^verbatim>\<open>step\<close>.

  Numbers. Python floats, float32 tensors and numpy arrays are modelled by \<open>real\<close>, and
  an operation of the source is the exact operation on reals, but for the four places
  where a claim sets a result of the code against a value computed in another way, so
  that the rounding decides: the quotient \<^verbatim>\<open>interval/self.dt_cyto\<close> of lines 99 and 110,
  the two accumulators of lines 264 and 267, the normalization of line 277 and the
  probabilities of lines 285 to 287. There the result is rounded to the nearest float
  of its type. Python integers are \<open>int\<close>.

  Errors. Every exception of the source is a value of \<open>error\<close>; a function that can
  raise returns \<open>error + 'a\<close>. A method that mutates its object before it raises
  returns the mutated object beside the error.
\<close>

subsection \<open>Errors, indexing and truncation\<close>

datatype error = ZeroDivisionError | IndexError | RuntimeError

text \<open>Python's \<^verbatim>\<open>int(x)\<close> on a float: truncation toward zero.\<close>

definition py_int :: "real \<Rightarrow> int" where
  "py_int x = (if 0 \<le> x then \<lfloor>x\<rfloor> else \<lceil>x\<rceil>)"

text \<open>
  Indexing of a one-dimensional tensor, array or list by an integer: a negative index
  counts from the end, an index outside \<open>-n .. n-1\<close> raises \<^verbatim>\<open>IndexError\<close>.
\<close>

definition py_get :: "'a list \<Rightarrow> int \<Rightarrow> error + 'a" where
  "py_get xs i =
     (if 0 \<le> i \<and> i < int (length xs) then Inr (xs ! nat i)
      else if - int (length xs) \<le> i \<and> i < 0 then Inr (xs ! nat (int (length xs) + i))
      else Inl IndexError)"

subsection \<open>Rounding to a binary float\<close>

text \<open>
  The number of binary digits of a natural number, and the exponent \<open>e\<close> of a positive
  real \<open>x\<close>, with \<open>2^e \<le> x < 2^(e+1)\<close>.
\<close>

fun bits :: "nat \<Rightarrow> nat" where
  "bits n = (if n = 0 then 0 else Suc (bits (n div 2)))"

definition float_exponent :: "real \<Rightarrow> int" where
  "float_exponent x =
     (if 1 \<le> x then int (bits (nat \<lfloor>x\<rfloor>)) - 1 else - int (bits (nat (\<lceil>1 / x\<rceil> - 1))))"

text \<open>Rounding to the nearest integer, a tie to the even one.\<close>

definition round_even :: "real \<Rightarrow> int" where
  "round_even y =
     (if y - of_int \<lfloor>y\<rfloor> < 1 / 2 then \<lfloor>y\<rfloor>
      else if 1 / 2 < y - of_int \<lfloor>y\<rfloor> then \<lfloor>y\<rfloor> + 1
      else if even \<lfloor>y\<rfloor> then \<lfloor>y\<rfloor> else \<lfloor>y\<rfloor> + 1)"

text \<open>
  Rounding to the nearest binary float with a significand of \<open>p\<close> digits (IEEE 754,
  round to nearest, ties to even): 53 digits for a Python float and a float64, 24 for a
  float32. The exponent range is not bounded: overflow and subnormal numbers are outside
  the model.
\<close>

definition round_float :: "nat \<Rightarrow> real \<Rightarrow> real" where
  "round_float p x =
     (if x = 0 then 0
      else sgn x * of_int (round_even (\<bar>x\<bar> / 2 powi (float_exponent \<bar>x\<bar> - int p + 1)))
             * 2 powi (float_exponent \<bar>x\<bar> - int p + 1))"

definition float64 :: "real \<Rightarrow> real" where
  "float64 = round_float 53"

definition float32 :: "real \<Rightarrow> real" where
  "float32 = round_float 24"

text \<open>The reals that are Python floats.\<close>

definition is_float64 :: "real \<Rightarrow> bool" where
  "is_float64 x \<longleftrightarrow> float64 x = x"

subsection \<open>The surrogate model \<^verbatim>\<open>RL_dNN\<close>\<close>

text \<open>
  The attributes set by \<^verbatim>\<open>RL_dNN.__init__\<close>. Two of them are loaded from files
  that are not part of the repository and are parameters here:
  \<^item> \<open>log_p_cyto\<close>, the tensor of trained log-parameters (the spec counts 16 of them;
    the code reads the indices 10 to 15);
  \<^item> \<open>dnn_TC\<close>, the trained network \<^verbatim>\<open>DNN\<close>. \<^verbatim>\<open>DNN.forward\<close> is a sequence of
    \<^verbatim>\<open>Linear\<close> and \<^verbatim>\<open>Tanh\<close> layers, so it maps every row of its input on its own;
    with the layer widths of \<^verbatim>\<open>main\<close> (5 in, 1 out) a row of five features gives one
    value. \<open>dnn_TC\<close> is that map on one row, for a network of any weights.
  \<open>training\<close> is the mode flag of the network module, cleared by \<^verbatim>\<open>eval()\<close>.
  \<open>lb\<close> and \<open>ub\<close> are the two-element bounds \<^verbatim>\<open>[concentration, time]\<close>.
\<close>

record RL_dNN =
  q_c :: real
  eta_c :: real
  mu_c :: real
  q_i :: real
  eta_i :: real
  mu_i :: real
  log_p_cyto :: "real list"
  dnn_TC :: "real list \<Rightarrow> real"
  training :: bool
  lb :: "real \<times> real"
  ub :: "real \<times> real"
  c_max :: real
  dt_cyto :: real
  CSF1RI_cum_max :: real

text \<open>
  \<^verbatim>\<open>RL_dNN.__init__(FP_layers, lb, ub, dc, dt_cyto)\<close>, with the two loaded values as
  arguments. \<^verbatim>\<open>1/dc\<close> and \<^verbatim>\<open>200 / self.dt_cyto\<close> are divisions of Python floats and
  raise on a zero divisor. A freshly built module is in training mode.
\<close>

definition RL_dNN_init ::
  "real list \<Rightarrow> (real list \<Rightarrow> real) \<Rightarrow> real \<times> real \<Rightarrow> real \<times> real \<Rightarrow> real \<Rightarrow> real
     \<Rightarrow> error + RL_dNN" where
  "RL_dNN_init loaded_log_p_cyto loaded_dnn_TC lb0 ub0 dc dt =
     (if dc = 0 then Inl ZeroDivisionError
      else if dt = 0 then Inl ZeroDivisionError
      else Inr \<lparr> q_c = 0.8, eta_c = 0.002, mu_c = 0.002,
                 q_i = 0.8, eta_i = 0.002, mu_i = 0.002,
                 log_p_cyto = loaded_log_p_cyto, dnn_TC = loaded_dnn_TC, training = True,
                 lb = lb0, ub = ub0, c_max = 1 / dc, dt_cyto = dt,
                 CSF1RI_cum_max = 200 / dt \<rparr>)"

subsection \<open>The pharmacokinetic integrators\<close>

text \<open>
  The right-hand side of the assignments to \<^verbatim>\<open>c[0]\<close> and \<^verbatim>\<open>c[k+1]\<close>, which the
  source writes out four times:
  \<^verbatim>\<open>(c - a*dose/(a+b))*torch.exp(-(a+b)*self.dt_cyto) + a*dose/(a+b)\<close>.
\<close>

definition closed_form :: "real \<Rightarrow> real \<Rightarrow> real \<Rightarrow> real \<Rightarrow> real \<Rightarrow> real" where
  "closed_form a b dose dt c = (c - a * dose / (a + b)) * exp (- (a + b) * dt) + a * dose / (a + b)"

text \<open>
  The writes into \<^verbatim>\<open>c = torch.empty(itera_cyto)\<close>: the assignment to \<^verbatim>\<open>c[0]\<close> and
  the loop \<^verbatim>\<open>for k in range(itera_cyto-1): c[k+1] = ... c[k] ...\<close>, for a tensor of
  \<open>n\<close> entries updated in place. \<^verbatim>\<open>torch.empty\<close> leaves the values unset; the model
  starts from zeros. Writing \<^verbatim>\<open>c[0]\<close> into a tensor of size 0 raises.
\<close>

definition trajectory :: "(real \<Rightarrow> real) \<Rightarrow> real \<Rightarrow> nat \<Rightarrow> error + real list" where
  "trajectory upd c_0 n =
     (if n = 0 then Inl IndexError
      else Inr (fold (\<lambda>k c. c[k + 1 := upd (c ! k)]) [0 ..< n - 1]
                  ((replicate n 0)[0 := upd c_0])))"

text \<open>The rates \<open>a\<close> and \<open>b\<close> of the two channels, as the source computes them.\<close>

definition a_CSF1RI :: "RL_dNN \<Rightarrow> real" where
  "a_CSF1RI self = exp (log_p_cyto self ! 10) * q_c self"

definition b_CSF1RI :: "RL_dNN \<Rightarrow> real" where
  "b_CSF1RI self = exp (log_p_cyto self ! 11) * eta_c self + exp (log_p_cyto self ! 12) * mu_c self"

definition a_IGF1RI :: "RL_dNN \<Rightarrow> real" where
  "a_IGF1RI self = exp (log_p_cyto self ! 13) * q_i self"

definition b_IGF1RI :: "RL_dNN \<Rightarrow> real \<Rightarrow> real" where
  "b_IGF1RI self C_T =
     exp (log_p_cyto self ! 14) * eta_i self + exp (log_p_cyto self ! 15) * mu_i self * C_T"

text \<open>
  \<^verbatim>\<open>f_CSF1RI(self, c_CSF1RI_0, dose_c, interval)\<close>. The statements in the source's
  order: the division \<^verbatim>\<open>interval/self.dt_cyto\<close> of two Python floats, which raises on a
  zero divisor and gives the float nearest to the quotient, truncated by \<^verbatim>\<open>int\<close>;
  \<^verbatim>\<open>torch.empty\<close> (which raises on a negative size), the reads of \<^verbatim>\<open>log_p_cyto[10..12]\<close>
  (out of range when the tensor has fewer than 13 entries), then the writes.
\<close>

definition f_CSF1RI :: "RL_dNN \<Rightarrow> real \<Rightarrow> real \<Rightarrow> real \<Rightarrow> error + real list" where
  "f_CSF1RI self c_CSF1RI_0 dose_c interval =
     (if dt_cyto self = 0 then Inl ZeroDivisionError
      else let itera_cyto = py_int (float64 (interval / dt_cyto self))
           in if itera_cyto < 0 then Inl RuntimeError
              else if length (log_p_cyto self) \<le> 12 then Inl IndexError
              else trajectory (closed_form (a_CSF1RI self) (b_CSF1RI self) dose_c (dt_cyto self))
                     c_CSF1RI_0 (nat itera_cyto))"

text \<open>\<^verbatim>\<open>f_IGF1RI(self, c_IGF1RI_0, dose_I, C_T, interval)\<close>, reading \<^verbatim>\<open>log_p_cyto[13..15]\<close>.\<close>

definition f_IGF1RI :: "RL_dNN \<Rightarrow> real \<Rightarrow> real \<Rightarrow> real \<Rightarrow> real \<Rightarrow> error + real list" where
  "f_IGF1RI self c_IGF1RI_0 dose_I C_T interval =
     (if dt_cyto self = 0 then Inl ZeroDivisionError
      else let itera_cyto = py_int (float64 (interval / dt_cyto self))
           in if itera_cyto < 0 then Inl RuntimeError
              else if length (log_p_cyto self) \<le> 15 then Inl IndexError
              else trajectory (closed_form (a_IGF1RI self) (b_IGF1RI self C_T) dose_I (dt_cyto self))
                     c_IGF1RI_0 (nat itera_cyto))"

subsection \<open>The feature map and the prediction\<close>

text \<open>
  \<^verbatim>\<open>net_u_CC(self, C, t, dose_c, dose_cum, dose_I)\<close>. Every argument is a column
  (an \<open>n \<times> 1\<close> tensor, here the list of its \<open>n\<close> values); \<^verbatim>\<open>torch.cat(..., dim=1)\<close>
  puts the five rescaled columns side by side and raises when their lengths differ; the
  network maps each row of five features. Tensor division does not raise.
\<close>

definition net_u_CC ::
  "RL_dNN \<Rightarrow> real list \<Rightarrow> real list \<Rightarrow> real list \<Rightarrow> real list \<Rightarrow> real list \<Rightarrow> error + real list" where
  "net_u_CC self C t dose_c dose_cum dose_I =
     (let t' = map (\<lambda>x. 2.0 * (x - snd (lb self)) / (snd (ub self) - snd (lb self)) - 1.0) t;
          C' = map (\<lambda>x. 2.0 * (x - fst (lb self)) / (fst (ub self) - fst (lb self)) - 1.0) C;
          dose_c' = map (\<lambda>x. 2.0 * (x - 0) - 1.0) dose_c;
          dose_cum' = map (\<lambda>x. 2.0 * (x - 0) / CSF1RI_cum_max self - 1.0) dose_cum;
          dose_I' = map (\<lambda>x. 2.0 * (x - 0) - 1.0) dose_I
      in if length C' = length t' \<and> length dose_c' = length t' \<and> length dose_cum' = length t'
            \<and> length dose_I' = length t'
         then let HTC = map (\<lambda>(x1, x2, x3, x4, x5). [x1, x2, x3, x4, x5])
                          (zip t' (zip C' (zip dose_c' (zip dose_cum' dose_I'))))
              in Inr (map (dnn_TC self) HTC)
         else Inl RuntimeError)"

text \<open>
  \<^verbatim>\<open>predict_DRL_FP(self, c, t, dose_c, CSF1RI_cum, dose_I, c_CSF1RI_0, c_IGF1RI_0,
  c_T_0, interval)\<close>. \<open>c\<close> is the column of the concentration bins. The first
  statement, \<^verbatim>\<open>self.dnn_TC.eval()\<close>, clears the mode flag of the network, so the
  model object is returned with the outcome. \<^verbatim>\<open>x * torch.ones_like(c)\<close> is the column
  that repeats \<open>x\<close> once per bin; \<^verbatim>\<open>c_CSF1RI[-1]\<close> and \<^verbatim>\<open>c_CSF1RI_k[-1, 0]\<close> read a last
  entry and raise on an empty tensor; \<^verbatim>\<open>uTC_pred[uTC_pred < 0] = 0\<close> is the clamp.
\<close>

definition predict_DRL_FP ::
  "RL_dNN \<Rightarrow> real list \<Rightarrow> real \<Rightarrow> real \<Rightarrow> real \<Rightarrow> real \<Rightarrow> real \<Rightarrow> real \<Rightarrow> real \<Rightarrow> real
     \<Rightarrow> (error + real list \<times> real \<times> real \<times> real) \<times> RL_dNN" where
  "predict_DRL_FP self0 c t dose_c CSF1RI_cum0 dose_I c_CSF1RI_0 c_IGF1RI_0 c_T_0 interval =
     (let self = self0\<lparr>training := False\<rparr>;
          t_k = map (\<lambda>one. t * one) (map (\<lambda>x. 1) c)
      in case f_CSF1RI self c_CSF1RI_0 dose_c interval of
           Inl e \<Rightarrow> (Inl e, self)
         | Inr c_CSF1RI \<Rightarrow>
      (case f_IGF1RI self c_IGF1RI_0 dose_I c_T_0 interval of
           Inl e \<Rightarrow> (Inl e, self)
         | Inr c_IGF1RI \<Rightarrow>
      (let CSF1RI_cum = CSF1RI_cum0 + sum_list c_CSF1RI
       in case py_get c_CSF1RI (- 1) of
           Inl e \<Rightarrow> (Inl e, self)
         | Inr c_CSF1RI_last \<Rightarrow>
      (let c_CSF1RI_k = map (\<lambda>one. c_CSF1RI_last * one) (map (\<lambda>x. 1) c);
           CSF1RI_cum_k = map (\<lambda>one. CSF1RI_cum * one) (map (\<lambda>x. 1) c)
       in case py_get c_IGF1RI (- 1) of
           Inl e \<Rightarrow> (Inl e, self)
         | Inr c_IGF1RI_last \<Rightarrow>
      (let c_IGF1RI_k = map (\<lambda>one. c_IGF1RI_last * one) (map (\<lambda>x. 1) c)
       in case net_u_CC self c t_k c_CSF1RI_k CSF1RI_cum_k c_IGF1RI_k of
           Inl e \<Rightarrow> (Inl e, self)
         | Inr uTC_pred \<Rightarrow>
      (case py_get c_CSF1RI_k (- 1) of
           Inl e \<Rightarrow> (Inl e, self)
         | Inr c_CSF1RI_out \<Rightarrow>
      (case py_get c_IGF1RI_k (- 1) of
           Inl e \<Rightarrow> (Inl e, self)
         | Inr c_IGF1RI_out \<Rightarrow>
           (Inr (map (\<lambda>u. if u < 0 then 0 else u) uTC_pred, CSF1RI_cum, c_CSF1RI_out, c_IGF1RI_out),
            self))))))))"

subsection \<open>The environment \<^verbatim>\<open>Env\<close>\<close>

text \<open>
  The attributes of \<^verbatim>\<open>Env\<close>. An entry \<^verbatim>\<open>[state_survival, survival_prob_delta]\<close> of
  \<open>state\<close> is a pair; \<open>initial\<close> holds the three initial values
  \<^verbatim>\<open>[initial_CSF1RI, initial_IGF1RI, initial_TC]\<close>.
\<close>

record Env =
  state :: "(real \<times> real) list"
  action_c_space :: "real list"
  action_I_space :: "real list"
  surrogat_model :: RL_dNN
  initial :: "real \<times> real \<times> real"
  predict_CSF1RI_list :: "real list"
  predict_IGF1RI_list :: "real list"
  predict_TC_list :: "real list"
  predict_CSF1RI_cum :: real
  CSF1RI_dose_cum :: real
  last_state_survival :: real
  time :: real

text \<open>\<^verbatim>\<open>Env.__init__(self, model, initial)\<close>.\<close>

definition Env_init :: "RL_dNN \<Rightarrow> real \<times> real \<times> real \<Rightarrow> Env" where
  "Env_init model initial0 =
     \<lparr> state = [],
       action_c_space = [0.0, 1.0],
       action_I_space = [0.0, 1.0],
       surrogat_model = model,
       initial = initial0,
       predict_CSF1RI_list = [] @ [fst initial0],
       predict_IGF1RI_list = [] @ [fst (snd initial0)],
       predict_TC_list = [] @ [snd (snd initial0)],
       predict_CSF1RI_cum = 0,
       CSF1RI_dose_cum = 0,
       last_state_survival = 0,
       time = 0 \<rparr>"

text \<open>\<^verbatim>\<open>Env.reset(self)\<close>.\<close>

definition reset :: "Env \<Rightarrow> Env" where
  "reset self =
     self\<lparr> state := [],
           predict_CSF1RI_list := [] @ [fst (initial self)],
           predict_IGF1RI_list := [] @ [fst (snd (initial self))],
           predict_TC_list := [] @ [snd (snd (initial self))],
           predict_CSF1RI_cum := 0,
           CSF1RI_dose_cum := 0,
           last_state_survival := 0,
           time := 0 \<rparr>"

text \<open>
  The first half of \<^verbatim>\<open>Env.step\<close>, up to and including the call of the surrogate
  model (lines 262 to 274): the clock and the cumulative dose are advanced, the doses
  are looked up in the action spaces, the last entries of the three histories are read.
  It yields the doses and the four results of \<^verbatim>\<open>predict_DRL_FP\<close>, the first of which
  is the density vector \<^verbatim>\<open>rl_FP_TC\<close>. The two accumulators \<^verbatim>\<open>self.time\<close> and
  \<^verbatim>\<open>self.CSF1RI_dose_cum\<close> are floats: \<^verbatim>\<open>+=\<close> gives the float nearest to the sum.
\<close>

definition step_predict ::
  "Env \<Rightarrow> int \<Rightarrow> int \<Rightarrow> real \<Rightarrow> real list
     \<Rightarrow> (error + real \<times> real \<times> real list \<times> real \<times> real \<times> real) \<times> Env" where
  "step_predict self0 action_c action_I predict_dt cc =
     (let self1 = self0\<lparr>time := float64 (time self0 + predict_dt)\<rparr>
      in case py_get (action_c_space self1) action_c of
           Inl e \<Rightarrow> (Inl e, self1)
         | Inr dose_c \<Rightarrow>
      (case py_get (action_I_space self1) action_I of
           Inl e \<Rightarrow> (Inl e, self1)
         | Inr dose_I \<Rightarrow>
      (let self2 = self1\<lparr>CSF1RI_dose_cum :=
                           float64 (CSF1RI_dose_cum self1 + float64 (dose_c * predict_dt))\<rparr>
       in case py_get (predict_CSF1RI_list self2) (- 1) of
            Inl e \<Rightarrow> (Inl e, self2)
          | Inr c_CSF1RI_0 \<Rightarrow>
      (case py_get (predict_IGF1RI_list self2) (- 1) of
            Inl e \<Rightarrow> (Inl e, self2)
          | Inr c_IGF1RI_0 \<Rightarrow>
      (case py_get (predict_TC_list self2) (- 1) of
            Inl e \<Rightarrow> (Inl e, self2)
          | Inr c_T_0 \<Rightarrow>
      (case predict_DRL_FP (surrogat_model self2) cc (time self2) dose_c (predict_CSF1RI_cum self2)
              dose_I c_CSF1RI_0 c_IGF1RI_0 c_T_0 predict_dt of
            (Inl e, model) \<Rightarrow> (Inl e, self2\<lparr>surrogat_model := model\<rparr>)
          | (Inr (rl_FP_TC, c_CSF1RI_cum, c_CSF1RI, c_IGF1RI), model) \<Rightarrow>
              (Inr (dose_c, dose_I, rl_FP_TC, c_CSF1RI_cum, c_CSF1RI, c_IGF1RI),
               self2\<lparr>surrogat_model := model\<rparr>)))))))"

text \<open>
  The values \<^verbatim>\<open>Env.step\<close> derives from the density vector \<^verbatim>\<open>rl_FP_TC\<close> (lines 277
  to 297). The vector has one row per bin: \<^verbatim>\<open>rl_FP_TC[:-3, :]\<close> drops the last three
  rows (and is empty when there are at most three), \<^verbatim>\<open>rl_FP_TC[:1, :]\<close> is the first.

  The vector is a float32 array. In line 277 it is divided by \<^verbatim>\<open>np.sum(rl_FP_TC) + 1e-7\<close>
  entry by entry, in float32: the divisor and every quotient are rounded to float32.
  The sums themselves are exact here.
\<close>

definition rl_FP_TC_norm :: "real list \<Rightarrow> real list" where
  "rl_FP_TC_norm rl_FP_TC =
     map (\<lambda>x. float32 (x / float32 (sum_list rl_FP_TC + 0.0000001))) rl_FP_TC"

definition TC_expectation :: "real list \<Rightarrow> real list \<Rightarrow> real" where
  "TC_expectation rl_FP_TC cc = sum_list (map (\<lambda>(p, c). p * c) (zip (rl_FP_TC_norm rl_FP_TC) cc))"

text \<open>
  Lines 284 to 287 work on NumPy scalars: \<^verbatim>\<open>prob_sum\<close> is a float32 scalar, to which the
  Python float \<^verbatim>\<open>1e-7\<close> is added. Which float type that sum, the quotients and
  \<^verbatim>\<open>1 - survival_prob\<close> have depends on the NumPy that runs the code: float32 from NumPy 2
  on (a Python float does not widen a float32 scalar), float64 before. The rounding
  \<open>np\<close> of these scalar operations is therefore a parameter: \<open>float32\<close> or \<open>float64\<close>.
\<close>

definition survival_prob :: "(real \<Rightarrow> real) \<Rightarrow> real list \<Rightarrow> real" where
  "survival_prob np rl_FP_TC =
     (let prob_sum = sum_list rl_FP_TC
      in np (sum_list (take (length rl_FP_TC - 3) rl_FP_TC) / np (prob_sum + 0.0000001)))"

definition death_prob :: "(real \<Rightarrow> real) \<Rightarrow> real list \<Rightarrow> real" where
  "death_prob np rl_FP_TC = np (1 - survival_prob np rl_FP_TC)"

definition cure_prob :: "(real \<Rightarrow> real) \<Rightarrow> real list \<Rightarrow> real" where
  "cure_prob np rl_FP_TC =
     (let prob_sum = sum_list rl_FP_TC
      in np (sum_list (take 1 rl_FP_TC) / np (prob_sum + 0.0000001)))"

definition dose_punish :: "Env \<Rightarrow> real" where
  "dose_punish self = real_of_int (int (length (action_c_space self)) - 1) + 0.0000001"

definition state_survival :: "(real \<Rightarrow> real) \<Rightarrow> real list \<Rightarrow> real" where
  "state_survival np rl_FP_TC =
     (let death_threshold = 0.2
      in (survival_prob np rl_FP_TC - (1 - death_threshold)) / death_threshold)"

text \<open>
  The reward function of \<^verbatim>\<open>Env.step\<close> (lines 309 to 328), from the three
  probabilities, the two action indices, \<^verbatim>\<open>dose_punish\<close>, \<^verbatim>\<open>lamda\<close>, \<^verbatim>\<open>self.time\<close> and
  \<^verbatim>\<open>self.CSF1RI_dose_cum\<close>; it gives \<^verbatim>\<open>reward\<close> and \<^verbatim>\<open>done\<close>.
\<close>

definition reward_function ::
  "real \<Rightarrow> real \<Rightarrow> real \<Rightarrow> int \<Rightarrow> int \<Rightarrow> real \<Rightarrow> real \<Rightarrow> real \<Rightarrow> real \<Rightarrow> real \<times> bool" where
  "reward_function death cure survival action_c action_I punish lamda now dose_cum =
     (let death_threshold = 0.2;
          cure_threshold = 0.99;
          reward = 0.1
      in if death \<ge> death_threshold then (- 0.1, True)
         else if cure \<ge> cure_threshold then (reward + 1.0, True)
         else
           let reward1 =
                 (if death \<ge> death_threshold * 0.5 then reward - 0.1 * (punish - real_of_int action_c)
                  else if action_c = 0 then reward + 0.05
                  else reward);
               reward2 =
                 (if survival \<le> 0.9 then reward1 - 0.1 * (punish - real_of_int action_I)
                  else if action_I = 0 then reward1 + 0.05
                  else reward1);
               reward3 =
                 (if survival > 0.9 then reward2 + lamda * (now - dose_cum)
                  else reward2)
           in (reward3, False))"

text \<open>
  \<^verbatim>\<open>Env.step(self, action_c, action_I, epi, predict_dt, cc, lamda)\<close>, under the rounding
  \<open>np\<close> of NumPy's scalar operations. It returns \<^verbatim>\<open>(last_state, reward, done, now_state)\<close>,
  or the error raised, and the environment as the call leaves it.
\<close>

definition step ::
  "(real \<Rightarrow> real) \<Rightarrow> Env \<Rightarrow> int \<Rightarrow> int \<Rightarrow> int \<Rightarrow> real \<Rightarrow> real list \<Rightarrow> real
     \<Rightarrow> (error + (real \<times> real) list \<times> real \<times> bool \<times> (real \<times> real) list) \<times> Env" where
  "step np self0 action_c action_I epi predict_dt cc lamda =
     (let last_state = state self0
      in case step_predict self0 action_c action_I predict_dt cc of
           (Inl e, self2) \<Rightarrow> (Inl e, self2)
         | (Inr (dose_c, dose_I, rl_FP_TC, c_CSF1RI_cum, c_CSF1RI, c_IGF1RI), self2) \<Rightarrow>
      (let self3 = self2\<lparr> predict_CSF1RI_cum := c_CSF1RI_cum,
                          predict_CSF1RI_list := predict_CSF1RI_list self2 @ [c_CSF1RI],
                          predict_IGF1RI_list := predict_IGF1RI_list self2 @ [c_IGF1RI],
                          predict_TC_list := predict_TC_list self2 @ [TC_expectation rl_FP_TC cc] \<rparr>;
           survival_prob_delta =
             (if epi = 0 then 0
              else state_survival np rl_FP_TC - last_state_survival self3);
           self4 = self3\<lparr> state := state self3 @ [(state_survival np rl_FP_TC, survival_prob_delta)],
                          last_state_survival := state_survival np rl_FP_TC \<rparr>;
           now_state = state self4;
           (reward, done) =
             reward_function (death_prob np rl_FP_TC) (cure_prob np rl_FP_TC)
               (survival_prob np rl_FP_TC)
               action_c action_I (dose_punish self4) lamda (time self4) (CSF1RI_dose_cum self4)
       in (Inr (last_state, reward, done, now_state), self4)))"

subsection \<open>Sequences of calls\<close>

text \<open>
  A caller drives the environment by a sequence of \<^verbatim>\<open>reset\<close> and \<^verbatim>\<open>step\<close> calls. An
  exception ends the sequence.
\<close>

datatype call = Reset | Step int int int real "real list" real

fun run :: "(real \<Rightarrow> real) \<Rightarrow> Env \<Rightarrow> call list \<Rightarrow> error + Env" where
  "run np self [] = Inr self"
| "run np self (Reset # calls) = run np (reset self) calls"
| "run np self (Step action_c action_I epi predict_dt cc lamda # calls) =
     (case step np self action_c action_I epi predict_dt cc lamda of
        (Inl e, self') \<Rightarrow> Inl e
      | (Inr result, self') \<Rightarrow> run np self' calls)"

text \<open>
  The calls made since the last \<^verbatim>\<open>reset\<close>, the step interval of a call, and the clock
  after steps of the given intervals from \<open>t\<close>: every \<^verbatim>\<open>self.time += predict_dt\<close> rounds.
\<close>

fun since_reset :: "call list \<Rightarrow> call list" where
  "since_reset [] = []"
| "since_reset (c # calls) =
     (if Reset \<in> set calls then since_reset calls
      else if c = Reset then calls
      else c # calls)"

fun interval_of :: "call \<Rightarrow> real" where
  "interval_of Reset = 0"
| "interval_of (Step action_c action_I epi predict_dt cc lamda) = predict_dt"

fun clock :: "real \<Rightarrow> real list \<Rightarrow> real" where
  "clock t [] = t"
| "clock t (predict_dt # intervals) = clock (float64 (t + predict_dt)) intervals"

subsection \<open>The spec's wording of three quantities\<close>




subsection \<open>A concrete instance\<close>

text \<open>
  The Python float \<^verbatim>\<open>1/48\<close>, which \<^verbatim>\<open>main\<close> takes for \<^verbatim>\<open>predict_dt\<close> and \<^verbatim>\<open>dt_cyto\<close>.
  A model as \<^verbatim>\<open>main\<close> builds it (\<^verbatim>\<open>dc = 0.01\<close>, \<^verbatim>\<open>dt_cyto = predict_dt = 1/48\<close>,
  \<^verbatim>\<open>lb = [dc, predict_dt]\<close>, \<^verbatim>\<open>ub = [1.0, 200]\<close>), with all log-parameters 0 and a
  network that gives \<open>w\<close> on the lowest bin (rescaled concentration \<open>-1\<close>) and 1 on the
  others; the environment over it with the initial values of \<^verbatim>\<open>main\<close>; four bins.
\<close>

definition example_dt :: real where
  "example_dt = float64 (1 / 48)"

definition example_model :: "real \<Rightarrow> RL_dNN" where
  "example_model w =
     \<lparr> q_c = 0.8, eta_c = 0.002, mu_c = 0.002,
       q_i = 0.8, eta_i = 0.002, mu_i = 0.002,
       log_p_cyto = replicate 16 0,
       dnn_TC = (\<lambda>row. if row ! 1 \<le> - 1 then w else 1),
       training = True,
       lb = (0.01, example_dt), ub = (1.0, 200), c_max = 1 / 0.01, dt_cyto = example_dt,
       CSF1RI_cum_max = 200 / example_dt \<rparr>"

definition example_env :: "real \<Rightarrow> Env" where
  "example_env w = Env_init (example_model w) (0, 0, 0.58)"

definition example_cc :: "real list" where
  "example_cc = [0.01, 0.02, 0.03, 0.04]"

section \<open>Properties\<close>

subsection \<open>Rounding\<close>

declare bits.simps [simp del]

lemma two_powi_add: "(2::real) powi (a + b) = 2 powi a * 2 powi b"
  by (simp add: power_int_add)

lemma two_powi_pos: "(0::real) < 2 powi a"
  by (simp add: zero_less_power_int)

lemma scale_hi: "(2::real) ^ p * 2 powi (k - int p + 1) = 2 powi (k + 1)"
proof -
  have "k + 1 = int p + (k - int p + 1)" by simp
  then have "(2::real) powi (k + 1) = 2 powi (int p + (k - int p + 1))" by simp
  also have "\<dots> = 2 powi int p * 2 powi (k - int p + 1)" by (rule two_powi_add)
  also have "(2::real) powi int p = 2 ^ p" by (rule power_int_of_nat)
  finally show ?thesis by (rule sym)
qed

lemma scale_lo: "0 < p \<Longrightarrow> (2::real) ^ (p - 1) * 2 powi (k - int p + 1) = 2 powi k"
proof -
  assume p: "0 < p"
  then have "k = int (p - 1) + (k - int p + 1)" by simp
  then have "(2::real) powi k = 2 powi (int (p - 1) + (k - int p + 1))" by simp
  also have "\<dots> = 2 powi int (p - 1) * 2 powi (k - int p + 1)" by (rule two_powi_add)
  also have "(2::real) powi int (p - 1) = 2 ^ (p - 1)" by (rule power_int_of_nat)
  finally show ?thesis by (rule sym)
qed


lemma bits_0 [simp]: "bits 0 = 0"
  by (simp add: bits.simps[of 0])

lemma bits_Suc_0 [simp]: "bits (Suc 0) = Suc 0"
  by (simp add: bits.simps[of "Suc 0"])

lemma bits_numeral [simp]: "bits (numeral k) = Suc (bits (numeral k div 2))"
  by (simp add: bits.simps[of "numeral k"])

lemma bits_pos: "0 < n \<Longrightarrow> 0 < bits n"
  by (simp add: bits.simps[of n])

lemma bits_bounds: "0 < n \<Longrightarrow> 2 ^ (bits n - 1) \<le> n \<and> n < 2 ^ bits n"
proof (induction n rule: bits.induct)
  case (1 n)
  show ?case
  proof (cases "n div 2 = 0")
    case True
    with 1(2) have "n = 1" by (simp add: div_eq_0_iff)
    then show ?thesis by simp
  next
    case False
    then have h: "0 < n div 2" by simp
    from 1(1)[OF _ h] 1(2)
    have ih: "2 ^ (bits (n div 2) - 1) \<le> n div 2" "n div 2 < 2 ^ bits (n div 2)" by simp_all
    have b: "bits n = Suc (bits (n div 2))" using 1(2) by (simp add: bits.simps[of n])
    have p: "0 < bits (n div 2)" using h by (rule bits_pos)
    then have "(2::nat) ^ bits (n div 2) = 2 * 2 ^ (bits (n div 2) - 1)"
      by (cases "bits (n div 2)") simp_all
    with ih(1) have "(2::nat) ^ bits (n div 2) \<le> 2 * (n div 2)" by simp
    also have "\<dots> \<le> n" by simp
    finally have lo: "(2::nat) ^ (bits n - 1) \<le> n" by (simp add: b)
    from ih(2) have "n div 2 + 1 \<le> 2 ^ bits (n div 2)" by simp
    then have "2 * (n div 2) + 2 \<le> 2 * 2 ^ bits (n div 2)" by simp
    moreover have "n < 2 * (n div 2) + 2" by presburger
    ultimately have hi: "n < 2 ^ bits n" by (simp add: b)
    from lo hi show ?thesis by simp
  qed
qed

lemma float_exponent_bounds:
  assumes "0 < x"
  shows "2 powi float_exponent x \<le> x" and "x < 2 powi (float_exponent x + 1)"
proof -
  have "2 powi float_exponent x \<le> x \<and> x < 2 powi (float_exponent x + 1)"
  proof (cases "1 \<le> x")
    case True
    define n where "n = nat \<lfloor>x\<rfloor>"
    have fl: "1 \<le> \<lfloor>x\<rfloor>" using True by simp
    have n0: "0 < n" using fl by (simp add: n_def)
    have rn: "real n = real_of_int \<lfloor>x\<rfloor>" using fl by (simp add: n_def)
    have n: "0 < n" "real n \<le> x" "x < real n + 1"
      using n0 rn by linarith+
    have e: "float_exponent x = int (bits n) - 1"
      using True by (simp add: float_exponent_def n_def)
    have bp: "0 < bits n" using n(1) by (rule bits_pos)
    from bits_bounds[OF n(1)] have b: "2 ^ (bits n - 1) \<le> n" "n < 2 ^ bits n" by simp_all
    have e1: "float_exponent x = int (bits n - 1)" using e bp by simp
    have e2: "float_exponent x + 1 = int (bits n)" using e by simp
    have "(2::real) powi float_exponent x = 2 ^ (bits n - 1)"
      unfolding e1 by (rule power_int_of_nat)
    also have "\<dots> = real (2 ^ (bits n - 1))" by simp
    also have "\<dots> \<le> real n" using b(1) by (simp only: of_nat_le_iff)
    finally have lo: "2 powi float_exponent x \<le> x" using n(2) by simp
    have "n + 1 \<le> 2 ^ bits n" using b(2) by simp
    then have "real (n + 1) \<le> real (2 ^ bits n)" by (simp only: of_nat_le_iff)
    then have "real n + 1 \<le> 2 ^ bits n" by simp
    also have "\<dots> = (2::real) powi (float_exponent x + 1)"
      unfolding e2 by (simp add: power_int_of_nat)
    finally have hi: "x < 2 powi (float_exponent x + 1)" using n(3) by simp
    from lo hi show ?thesis by simp
  next
    case False
    then have x1: "x < 1" by simp
    define y where "y = 1 / x"
    have y: "1 < y" "0 < y" "x = 1 / y" using assms x1 by (simp_all add: y_def)
    define m where "m = nat (\<lceil>y\<rceil> - 1)"
    have c2: "2 \<le> \<lceil>y\<rceil>" using y(1) by linarith
    have m0: "0 < m" using c2 by (simp add: m_def)
    have rm: "real m = real_of_int \<lceil>y\<rceil> - 1" using c2 by (simp add: m_def)
    have m: "0 < m" "real m < y" "y \<le> real m + 1"
      using m0 rm by linarith+
    have e: "float_exponent x = - int (bits m)"
      using False by (simp add: float_exponent_def m_def y_def)
    have bp: "0 < bits m" using m(1) by (rule bits_pos)
    from bits_bounds[OF m(1)] have b: "2 ^ (bits m - 1) \<le> m" "m < 2 ^ bits m" by simp_all
    have "m + 1 \<le> 2 ^ bits m" using b(2) by simp
    then have "real (m + 1) \<le> real (2 ^ bits m)" by (simp only: of_nat_le_iff)
    then have yb: "y \<le> 2 ^ bits m" using m(3) by simp
    have "(2::real) powi float_exponent x = 1 / 2 ^ bits m"
      unfolding e by (simp add: power_int_minus_divide power_int_of_nat)
    also have "\<dots> \<le> 1 / y" using yb y(2) by (simp add: frac_le)
    finally have lo: "2 powi float_exponent x \<le> x" using y(3) by simp
    have "real (2 ^ (bits m - 1)) \<le> real m" using b(1) by (simp only: of_nat_le_iff)
    then have "(2::real) ^ (bits m - 1) \<le> real m" by simp
    then have yl: "2 ^ (bits m - 1) < y" using m(2) by linarith
    have e2: "float_exponent x + 1 = - int (bits m - 1)" using e bp by simp
    have "x = 1 / y" by (rule y(3))
    also have "\<dots> < 1 / 2 ^ (bits m - 1)" using yl by (simp add: frac_less2)
    also have "\<dots> = (2::real) powi (float_exponent x + 1)"
      unfolding e2 by (simp add: power_int_minus_divide power_int_of_nat)
    finally have hi: "x < 2 powi (float_exponent x + 1)" .
    from lo hi show ?thesis by simp
  qed
  then show "2 powi float_exponent x \<le> x" and "x < 2 powi (float_exponent x + 1)" by simp_all
qed

lemma float_exponent_unique:
  assumes "0 < x" and "2 powi k \<le> x" and "x < 2 powi (k + 1)"
  shows "float_exponent x = k"
proof -
  note b = float_exponent_bounds[OF assms(1)]
  have "float_exponent x < k + 1"
  proof (rule ccontr)
    assume "\<not> float_exponent x < k + 1"
    then have "k + 1 \<le> float_exponent x" by simp
    then have "(2::real) powi (k + 1) \<le> 2 powi float_exponent x"
      by (rule power_int_increasing) simp
    with b(1) assms(3) show False by simp
  qed
  moreover have "k < float_exponent x + 1"
  proof (rule ccontr)
    assume "\<not> k < float_exponent x + 1"
    then have "float_exponent x + 1 \<le> k" by simp
    then have "(2::real) powi (float_exponent x + 1) \<le> 2 powi k"
      by (rule power_int_increasing) simp
    with b(2) assms(2) show False by simp
  qed
  ultimately show ?thesis by simp
qed

lemma round_even_floor: "\<lfloor>y\<rfloor> \<le> round_even y" "round_even y \<le> \<lfloor>y\<rfloor> + 1"
  by (simp_all add: round_even_def)


lemma round_even_of_int [simp]: "round_even (real_of_int k) = k"
  by (simp add: round_even_def)

lemma round_even_mono: "y \<le> z \<Longrightarrow> round_even y \<le> round_even z"
proof (cases "\<lfloor>y\<rfloor> = \<lfloor>z\<rfloor>")
  case True
  assume "y \<le> z"
  then show ?thesis using True by (auto simp: round_even_def)
next
  case False
  assume "y \<le> z"
  then have "\<lfloor>y\<rfloor> \<le> \<lfloor>z\<rfloor>" by (rule floor_mono)
  with False have "\<lfloor>y\<rfloor> + 1 \<le> \<lfloor>z\<rfloor>" by simp
  with round_even_floor(2)[of y] round_even_floor(1)[of z] show ?thesis by linarith
qed

lemma round_float_0 [simp]: "round_float p 0 = 0"
  by (simp add: round_float_def)

lemma round_float_minus: "round_float p (- x) = - round_float p x"
  by (simp add: round_float_def)

lemma round_float_pos:
  "0 < x \<Longrightarrow> round_float p x =
     of_int (round_even (x / 2 powi (float_exponent x - int p + 1))) * 2 powi (float_exponent x - int p + 1)"
  by (simp add: round_float_def)

lemma scaled_bounds:
  assumes "0 < x" and "0 < p"
  shows "2 ^ (p - 1) \<le> x / 2 powi (float_exponent x - int p + 1)"
    and "x / 2 powi (float_exponent x - int p + 1) < 2 ^ p"
proof -
  let ?e = "float_exponent x"
  let ?u = "(2::real) powi (?e - int p + 1)"
  have u: "0 < ?u" by (simp add: zero_less_power_int)
  have a: "(2::real) ^ (p - 1) * ?u = 2 powi ?e" using assms(2) by (rule scale_lo)
  have b: "(2::real) ^ p * ?u = 2 powi (?e + 1)" by (rule scale_hi)
  from float_exponent_bounds[OF assms(1)]
  have "2 ^ (p - 1) * ?u \<le> x" "x < 2 ^ p * ?u" unfolding a b by simp_all
  then show "2 ^ (p - 1) \<le> x / ?u" and "x / ?u < 2 ^ p"
    using u by (simp_all add: pos_le_divide_eq pos_divide_less_eq)
qed

lemma round_even_scaled:
  assumes "0 < x" and "0 < p"
  shows "2 ^ (p - 1) \<le> round_even (x / 2 powi (float_exponent x - int p + 1))"
    and "round_even (x / 2 powi (float_exponent x - int p + 1)) \<le> 2 ^ p"
proof -
  let ?y = "x / 2 powi (float_exponent x - int p + 1)"
  note s = scaled_bounds[OF assms]
  have "round_even (real_of_int (2 ^ (p - 1))) \<le> round_even ?y"
    by (rule round_even_mono) (use s(1) in simp)
  then show "2 ^ (p - 1) \<le> round_even ?y" by (simp only: round_even_of_int)
  have "round_even ?y \<le> round_even (real_of_int (2 ^ p))"
    by (rule round_even_mono) (use s(2) in simp)
  then show "round_even ?y \<le> 2 ^ p" by (simp only: round_even_of_int)
qed

lemma round_float_bounds:
  assumes "0 < x" and "0 < p"
  shows "2 powi float_exponent x \<le> round_float p x"
    and "round_float p x \<le> 2 powi (float_exponent x + 1)"
proof -
  let ?e = "float_exponent x"
  let ?u = "(2::real) powi (?e - int p + 1)"
  let ?N = "round_even (x / ?u)"
  have u: "0 < ?u" by (simp add: zero_less_power_int)
  have a: "(2::real) ^ (p - 1) * ?u = 2 powi ?e" using assms(2) by (rule scale_lo)
  have b: "(2::real) ^ p * ?u = 2 powi (?e + 1)" by (rule scale_hi)
  have rf: "round_float p x = real_of_int ?N * ?u" by (rule round_float_pos[OF assms(1)])
  note n = round_even_scaled[OF assms]
  have "real_of_int (2 ^ (p - 1)) \<le> real_of_int ?N" using n(1) by (simp only: of_int_le_iff)
  then have "2 ^ (p - 1) * ?u \<le> real_of_int ?N * ?u" using u by simp
  then show "2 powi ?e \<le> round_float p x" unfolding a rf .
  have "real_of_int ?N \<le> real_of_int (2 ^ p)" using n(2) by (simp only: of_int_le_iff)
  then have "real_of_int ?N * ?u \<le> 2 ^ p * ?u" using u by simp
  then show "round_float p x \<le> 2 powi (?e + 1)" unfolding b rf .
qed

lemma round_float_pos_iff:
  assumes "0 < p"
  shows "0 < x \<Longrightarrow> 0 < round_float p x" and "x < 0 \<Longrightarrow> round_float p x < 0"
    and "0 \<le> x \<Longrightarrow> 0 \<le> round_float p x"
proof -
  have pos: "0 < round_float p y" if "0 < y" for y
  proof -
    have "(0::real) < 2 powi float_exponent y" by (rule two_powi_pos)
    with round_float_bounds(1)[OF that assms] show ?thesis by linarith
  qed
  show "0 < x \<Longrightarrow> 0 < round_float p x" by (rule pos)
  show "x < 0 \<Longrightarrow> round_float p x < 0"
    using pos[of "- x"] by (simp add: round_float_minus)
  show "0 \<le> x \<Longrightarrow> 0 \<le> round_float p x"
    using pos[of x] by (cases "x = 0") simp_all
qed



lemma round_float_exact:
  assumes "0 < x" and "0 < p" and "x = real_of_int N * 2 powi (k - int p + 1)"
    and "2 ^ (p - 1) \<le> N" and "N \<le> 2 ^ p"
  shows "round_float p x = x"
proof (cases "N = 2 ^ p")
  case False
  with assms(5) have lt: "N < 2 ^ p" by simp
  let ?u = "(2::real) powi (k - int p + 1)"
  have u: "0 < ?u" by (simp add: zero_less_power_int)
  have a: "(2::real) ^ (p - 1) * ?u = 2 powi k" using assms(2) by (rule scale_lo)
  have b: "(2::real) ^ p * ?u = 2 powi (k + 1)" by (rule scale_hi)
  have "real_of_int (2 ^ (p - 1)) \<le> real_of_int N" using assms(4) by (simp only: of_int_le_iff)
  then have f1: "2 ^ (p - 1) * ?u \<le> real_of_int N * ?u" using u by simp
  have lo: "2 powi k \<le> x"
  proof -
    have "2 powi k = 2 ^ (p - 1) * ?u" by (rule a[symmetric])
    also have "\<dots> \<le> real_of_int N * ?u" by (rule f1)
    also have "\<dots> = x" by (rule assms(3)[symmetric])
    finally show ?thesis .
  qed
  have "real_of_int N < real_of_int (2 ^ p)" using lt by (simp only: of_int_less_iff)
  then have f2: "real_of_int N * ?u < 2 ^ p * ?u" using u by simp
  have hi: "x < 2 powi (k + 1)"
  proof -
    have "x = real_of_int N * ?u" by (rule assms(3))
    also have "\<dots> < 2 ^ p * ?u" by (rule f2)
    also have "\<dots> = 2 powi (k + 1)" by (rule b)
    finally show ?thesis .
  qed
  have e: "float_exponent x = k" using assms(1) lo hi by (rule float_exponent_unique)
  have "real_of_int N * ?u / ?u = real_of_int N" using u by simp
  then have s: "x / ?u = real_of_int N" by (simp only: assms(3)[symmetric])
  have rf: "round_float p x = real_of_int (round_even (x / ?u)) * ?u"
    using round_float_pos[OF assms(1), of p] by (simp only: e)
  have "round_even (x / ?u) = N" by (simp only: s round_even_of_int)
  then have "round_float p x = real_of_int N * ?u" using rf by (simp only:)
  then show ?thesis by (simp only: assms(3)[symmetric])
next
  case True
  let ?u = "(2::real) powi (k - int p + 1)"
  let ?u' = "(2::real) powi (k + 1 - int p + 1)"
  have u: "0 < ?u" "0 < ?u'" by (simp_all add: zero_less_power_int)
  have uu: "?u' = 2 * ?u"
  proof -
    have "?u' = 2 powi ((k - int p + 1) + 1)" by (simp add: algebra_simps)
    also have "\<dots> = ?u * 2" by (rule power_int_add_1) simp
    finally show ?thesis by simp
  qed
  have b: "(2::real) ^ p * ?u = 2 powi (k + 1)" by (rule scale_hi)
  have x: "x = 2 powi (k + 1)" using assms(3) True b by simp
  have "(2::real) powi (k + 1) < 2 powi (k + 1 + 1)"
    by (rule power_int_strict_increasing) simp_all
  then have e: "float_exponent x = k + 1"
    using assms(1) x by (intro float_exponent_unique) simp_all
  have pp: "(2::real) ^ p = 2 * 2 ^ (p - 1)" using assms(2) by (cases p) simp_all
  have "x / ?u' = 2 ^ p * ?u / (2 * ?u)" using x b uu by simp
  also have "\<dots> = 2 ^ (p - 1)" using u pp by simp
  also have "\<dots> = real_of_int (2 ^ (p - 1))" by simp
  finally have s: "x / ?u' = real_of_int (2 ^ (p - 1))" .
  have "round_float p x = real_of_int (round_even (x / ?u')) * ?u'"
    by (simp add: round_float_pos[OF assms(1)] e)
  also have "\<dots> = 2 ^ (p - 1) * ?u'" unfolding s round_even_of_int by simp
  also have "\<dots> = 2 ^ p * ?u" using uu pp by simp
  also have "\<dots> = x" using x b by simp
  finally show ?thesis .
qed

lemma round_float_idem:
  assumes "0 < p"
  shows "round_float p (round_float p x) = round_float p x"
proof -
  have pos: "round_float p (round_float p y) = round_float p y" if y: "0 < y" for y
  proof -
    let ?N = "round_even (y / 2 powi (float_exponent y - int p + 1))"
    have "round_float p y = real_of_int ?N * 2 powi (float_exponent y - int p + 1)"
      by (rule round_float_pos[OF y])
    moreover have "0 < round_float p y" using y by (rule round_float_pos_iff(1)[OF assms])
    ultimately show ?thesis
      using round_even_scaled[OF y assms] assms by (intro round_float_exact[of _ _ ?N "float_exponent y"])
  qed
  show ?thesis
  proof (cases "0 < x")
    case True
    then show ?thesis by (rule pos)
  next
    case False
    show ?thesis
    proof (cases "x = 0")
      case True
      then show ?thesis by simp
    next
      case f: False
      with False have "0 < - x" by simp
      from pos[OF this] show ?thesis by (simp add: round_float_minus)
    qed
  qed
qed

lemma round_float_of_int:
  assumes "0 < p" and "\<bar>k\<bar> \<le> 2 ^ p"
  shows "round_float p (real_of_int k) = real_of_int k"
proof -
  have pos: "round_float p (real_of_int n) = real_of_int n" if n: "0 < n" "n \<le> 2 ^ p" for n :: int
  proof -
    let ?x = "real_of_int n"
    let ?e = "float_exponent ?x"
    have x: "0 < ?x" using n(1) by simp
    note eb = float_exponent_bounds[OF x]
    have "real_of_int n \<le> real_of_int (2 ^ p)" using n(2) by (simp only: of_int_le_iff)
    then have "?x \<le> 2 powi (int p)" by (simp add: power_int_of_nat)
    with eb(1) have "(2::real) powi ?e \<le> 2 powi (int p)" by linarith
    then have ep: "?e \<le> int p" by (rule power_int_le_imp_le_exp[rotated]) simp_all
    show ?thesis
    proof (cases "?e = int p")
      case True
      then have "(2::real) powi (int p) \<le> ?x" using eb(1) by simp
      with \<open>?x \<le> 2 powi (int p)\<close> have xe: "?x = 2 powi (int p)" by simp
      have "?x = real_of_int (2 ^ p) * 2 powi (int p - 1 - int p + 1)"
        using xe by (simp add: power_int_of_nat)
      moreover have "(2::int) ^ (p - 1) \<le> 2 ^ p" by (simp add: power_increasing)
      ultimately show ?thesis
        using x assms(1) by (intro round_float_exact[of _ _ "2 ^ p" "int p - 1"]) simp_all
    next
      case False
      with ep have lt: "?e < int p" by simp
      define j where "j = nat (int p - 1 - ?e)"
      have j: "int j = int p - 1 - ?e" using lt by (simp add: j_def)
      have u: "(2::real) powi (?e - int p + 1) = 1 / 2 ^ j"
      proof -
        have "?e - int p + 1 = - int j" using j by simp
        then show ?thesis by (simp add: power_int_minus_divide power_int_of_nat)
      qed
      have xr: "?x = real_of_int (n * 2 ^ j) * 2 powi (?e - int p + 1)"
        unfolding u by simp
      have sb: "2 ^ (p - 1) \<le> ?x / 2 powi (?e - int p + 1)"
               "?x / 2 powi (?e - int p + 1) < 2 ^ p"
        using scaled_bounds[OF x assms(1)] by simp_all
      have sv: "?x / 2 powi (?e - int p + 1) = real_of_int (n * 2 ^ j)"
        unfolding u by simp
      have "real_of_int (2 ^ (p - 1)) \<le> real_of_int (n * 2 ^ j)"
        using sb(1) unfolding sv by simp
      then have l: "2 ^ (p - 1) \<le> n * 2 ^ j" by (simp only: of_int_le_iff)
      have "real_of_int (n * 2 ^ j) < real_of_int (2 ^ p)"
        using sb(2) unfolding sv by simp
      then have h: "n * 2 ^ j \<le> 2 ^ p" by (simp only: of_int_less_iff)
      from x assms(1) xr l h show ?thesis by (rule round_float_exact)
    qed
  qed
  show ?thesis
  proof (cases "0 < k")
    case True
    then show ?thesis using pos[of k] assms(2) by simp
  next
    case False
    show ?thesis
    proof (cases "k = 0")
      case True
      then show ?thesis by simp
    next
      case f: False
      with False have "0 < - k" "- k \<le> 2 ^ p" using assms(2) by simp_all
      from pos[OF this] show ?thesis by (simp add: round_float_minus)
    qed
  qed
qed

lemma round_float_mono:
  assumes "0 < p" and "x \<le> y"
  shows "round_float p x \<le> round_float p y"
proof -
  have pos: "round_float p a \<le> round_float p b" if ab: "0 < a" "a \<le> b" for a b
  proof -
    have b: "0 < b" using ab by simp
    note ea = float_exponent_bounds[OF ab(1)]
    note eb = float_exponent_bounds[OF b]
    have "(2::real) powi float_exponent a < 2 powi (float_exponent b + 1)"
      using ea(1) eb(2) ab(2) by simp
    then have le: "float_exponent a \<le> float_exponent b"
    proof -
      have "\<not> float_exponent b + 1 \<le> float_exponent a"
      proof
        assume "float_exponent b + 1 \<le> float_exponent a"
        then have "(2::real) powi (float_exponent b + 1) \<le> 2 powi float_exponent a"
          by (rule power_int_increasing) simp
        with \<open>(2::real) powi float_exponent a < 2 powi (float_exponent b + 1)\<close>
        show False by simp
      qed
      then show ?thesis by simp
    qed
    show ?thesis
    proof (cases "float_exponent a = float_exponent b")
      case True
      let ?u = "(2::real) powi (float_exponent b - int p + 1)"
      have u: "0 < ?u" by (simp add: zero_less_power_int)
      have "a / ?u \<le> b / ?u" using ab(2) u by (simp add: divide_right_mono)
      then have "round_even (a / ?u) \<le> round_even (b / ?u)" by (rule round_even_mono)
      then have "real_of_int (round_even (a / ?u)) \<le> real_of_int (round_even (b / ?u))"
        by (simp only: of_int_le_iff)
      then show ?thesis
        using u by (simp add: round_float_pos[OF ab(1)] round_float_pos[OF b] True)
    next
      case False
      with le have "float_exponent a + 1 \<le> float_exponent b" by simp
      then have "(2::real) powi (float_exponent a + 1) \<le> 2 powi float_exponent b"
        by (rule power_int_increasing) simp
      with round_float_bounds(2)[OF ab(1) assms(1)] round_float_bounds(1)[OF b assms(1)]
      show ?thesis by simp
    qed
  qed
  consider "0 < x" | "x \<le> 0" "0 \<le> y" | "y < 0" using assms(2) by linarith
  then show ?thesis
  proof cases
    case 1
    then show ?thesis using pos assms(2) by simp
  next
    case 2
    have "round_float p x \<le> 0"
      using round_float_pos_iff(3)[OF assms(1), of "- x"] 2(1) by (simp add: round_float_minus)
    moreover have "0 \<le> round_float p y" using 2(2) by (rule round_float_pos_iff(3)[OF assms(1)])
    ultimately show ?thesis by simp
  next
    case 3
    then have "0 < - y" "- y \<le> - x" using assms(2) by simp_all
    from pos[OF this] show ?thesis by (simp add: round_float_minus)
  qed
qed

lemma round_float_repr:
  assumes "0 < p" and "0 < x" and "round_float p x = x"
  shows "\<exists>N. x = real_of_int N * 2 powi (float_exponent x - int p + 1) \<and>
             2 ^ (p - 1) \<le> N \<and> N < 2 ^ p"
proof -
  let ?u = "(2::real) powi (float_exponent x - int p + 1)"
  let ?N = "round_even (x / ?u)"
  have u: "0 < ?u" by (rule two_powi_pos)
  have x: "x = real_of_int ?N * ?u"
    using round_float_pos[OF assms(2), of p] assms(3) by simp
  have lo: "2 ^ (p - 1) \<le> ?N" by (rule round_even_scaled(1)[OF assms(2,1)])
  have "real_of_int ?N * ?u < 2 ^ p * ?u"
    using float_exponent_bounds(2)[OF assms(2)] x by (simp only: scale_hi)
  then have "real_of_int ?N < 2 ^ p" using u by simp
  then have "real_of_int ?N < real_of_int (2 ^ p)" by simp
  then have hi: "?N < 2 ^ p" by (simp only: of_int_less_iff)
  from x lo hi show ?thesis by blast
qed

lemma round_float_below_one:
  assumes "0 < p"
  shows "round_float p (1 - 1 / 2 ^ p) = 1 - 1 / 2 ^ p"
proof -
  have p2: "(1::real) < 2 ^ p" using assms by (simp add: one_less_power)
  have pos: "(0::real) < 1 - 1 / 2 ^ p" using p2 by simp
  have u: "(2::real) powi (- 1 - int p + 1) = 1 / 2 ^ p"
    by (simp add: power_int_minus_divide power_int_of_nat)
  have "(1::real) - 1 / 2 ^ p = (2 ^ p - 1) / 2 ^ p" by (simp add: field_simps)
  also have "\<dots> = real_of_int (2 ^ p - 1) * 2 powi (- 1 - int p + 1)"
    unfolding u by simp
  finally have r: "(1::real) - 1 / 2 ^ p = real_of_int (2 ^ p - 1) * 2 powi (- 1 - int p + 1)" .
  have "(2::int) ^ p = 2 * 2 ^ (p - 1)" using assms by (cases p) simp_all
  moreover have "(1::int) \<le> 2 ^ (p - 1)" by simp
  ultimately have lo: "(2::int) ^ (p - 1) \<le> 2 ^ p - 1" by linarith
  have hi: "(2::int) ^ p - 1 \<le> 2 ^ p" by simp
  from pos assms r lo hi show ?thesis by (rule round_float_exact)
qed

lemma float_le_scaled:
  assumes "0 < p" and "0 < x" and "x < y" and "round_float p x = x" and "round_float p y = y"
  shows "x \<le> y * (1 - 1 / 2 ^ p)"
proof -
  have y: "0 < y" using assms(2,3) by simp
  let ?ex = "float_exponent x" and ?ey = "float_exponent y"
  let ?ux = "(2::real) powi (?ex - int p + 1)" and ?uy = "(2::real) powi (?ey - int p + 1)"
  from round_float_repr[OF assms(1,2,4)] obtain Nx where
    nx: "x = real_of_int Nx * ?ux" "2 ^ (p - 1) \<le> Nx" "Nx < 2 ^ p" by blast
  from round_float_repr[OF assms(1) y assms(5)] obtain Ny where
    ny: "y = real_of_int Ny * ?uy" "2 ^ (p - 1) \<le> Ny" "Ny < 2 ^ p" by blast
  have ux: "0 < ?ux" and uy: "0 < ?uy" by (rule two_powi_pos)+
  have p2: "(0::real) < 2 ^ p" by simp
  have c: "0 \<le> (1::real) - 1 / 2 ^ p" using assms(1) by (simp add: one_le_power)
  note ebx = float_exponent_bounds[OF assms(2)]
  note eby = float_exponent_bounds[OF y]
  have le: "?ex \<le> ?ey"
  proof (rule ccontr)
    assume "\<not> ?ex \<le> ?ey"
    then have "?ey + 1 \<le> ?ex" by simp
    then have "(2::real) powi (?ey + 1) \<le> 2 powi ?ex" by (rule power_int_increasing) simp
    with ebx(1) eby(2) assms(3) show False by linarith
  qed
  show ?thesis
  proof (cases "?ex = ?ey")
    case True
    have "real_of_int Nx * ?uy < real_of_int Ny * ?uy"
      using assms(3) nx(1) ny(1) True by simp
    then have "real_of_int Nx < real_of_int Ny" using uy by simp
    then have "Nx + 1 \<le> Ny" by simp
    then have "real_of_int (Nx + 1) \<le> real_of_int Ny" by (simp only: of_int_le_iff)
    then have "(real_of_int Nx + 1) * ?uy \<le> real_of_int Ny * ?uy" using uy by simp
    then have a: "x + ?uy \<le> y" using nx(1) ny(1) True by (simp add: algebra_simps)
    have "real_of_int Ny < real_of_int (2 ^ p)" using ny(3) by (simp only: of_int_less_iff)
    then have "real_of_int Ny * ?uy < 2 ^ p * ?uy" using uy by simp
    then have "y < 2 ^ p * ?uy" using ny(1) by simp
    then have "y / 2 ^ p < ?uy" by (simp add: field_simps)
    with a have "x \<le> y - y / 2 ^ p" by linarith
    then show ?thesis by (simp add: algebra_simps)
  next
    case False
    with le have "?ex + 1 \<le> ?ey" by simp
    then have "(2::real) powi (?ex + 1) \<le> 2 powi ?ey" by (rule power_int_increasing) simp
    with eby(1) have b: "2 powi (?ex + 1) \<le> y" by linarith
    have "Nx \<le> 2 ^ p - 1" using nx(3) by simp
    then have "real_of_int Nx \<le> real_of_int (2 ^ p - 1)" by (simp only: of_int_le_iff)
    then have "real_of_int Nx * ?ux \<le> (2 ^ p - 1) * ?ux" using ux by simp
    then have "x \<le> 2 ^ p * ?ux - ?ux" using nx(1) by (simp add: algebra_simps)
    then have x1: "x \<le> 2 powi (?ex + 1) - ?ux" by (simp only: scale_hi)
    have "?ux = 2 powi (?ex + 1) / 2 ^ p"
      using scale_hi[of p ?ex] by (simp add: field_simps)
    with x1 have "x \<le> 2 powi (?ex + 1) * (1 - 1 / 2 ^ p)" by (simp add: algebra_simps)
    also have "\<dots> \<le> y * (1 - 1 / 2 ^ p)" using b c by (rule mult_right_mono)
    finally show ?thesis .
  qed
qed

lemma round_float_quotient_less_1:
  assumes "0 < p" and "0 < x" and "x < y" and "round_float p x = x" and "round_float p y = y"
  shows "round_float p (x / y) < 1"
proof -
  have y: "0 < y" using assms(2,3) by simp
  have "x / y \<le> 1 - 1 / 2 ^ p"
    using float_le_scaled[OF assms] y by (simp add: pos_divide_le_eq mult.commute)
  then have "round_float p (x / y) \<le> round_float p (1 - 1 / 2 ^ p)"
    by (rule round_float_mono[OF assms(1)])
  also have "\<dots> = 1 - 1 / 2 ^ p" by (rule round_float_below_one[OF assms(1)])
  also have "\<dots> < 1" by simp
  finally show ?thesis .
qed

lemma float64_0 [simp]: "float64 0 = 0"
  by (simp add: float64_def)

lemma float64_of_int: "\<bar>k\<bar> \<le> 2 ^ 53 \<Longrightarrow> float64 (real_of_int k) = real_of_int k"
  unfolding float64_def by (rule round_float_of_int) simp_all

lemma float64_of_nat: "k \<le> 2 ^ 53 \<Longrightarrow> float64 (real k) = real k"
  using float64_of_int[of "int k"] by simp

lemma float64_1 [simp]: "float64 1 = 1"
  using float64_of_int[of 1] by simp

lemma float64_minus: "float64 (- x) = - float64 x"
  by (simp add: float64_def round_float_minus)

lemma float64_idem [simp]: "float64 (float64 x) = float64 x"
  unfolding float64_def by (rule round_float_idem) simp

lemma is_float64_float64 [simp]: "is_float64 (float64 x)"
  by (simp add: is_float64_def)

lemma is_float64_0 [simp]: "is_float64 0"
  by (simp add: is_float64_def)

lemma is_float64_minus: "is_float64 x \<Longrightarrow> is_float64 (- x)"
  by (simp add: is_float64_def float64_minus)

lemma float64_mono: "x \<le> y \<Longrightarrow> float64 x \<le> float64 y"
  unfolding float64_def by (rule round_float_mono) simp

lemma float64_nonneg: "0 \<le> x \<Longrightarrow> 0 \<le> float64 x"
  using float64_mono[of 0 x] by simp

lemma float64_ge_1: "1 \<le> x \<Longrightarrow> 1 \<le> float64 x"
  using float64_mono[of 1 x] by simp

lemma float64_le_minus_1: "x \<le> - 1 \<Longrightarrow> float64 x \<le> - 1"
  using float64_mono[of x "- 1"] by (simp add: float64_minus)

lemma float64_quotient_less_1:
  assumes "is_float64 x" and "is_float64 y" and "0 < x" and "x < y"
  shows "float64 (x / y) < 1"
  using assms unfolding is_float64_def float64_def
  by (intro round_float_quotient_less_1) simp_all

lemma float64_quotient_small:
  assumes "is_float64 x" and "is_float64 y" and "\<bar>x\<bar> < y"
  shows "- 1 < float64 (x / y)" and "float64 (x / y) < 1"
proof -
  have y: "0 < y" using assms(3) by linarith
  consider "0 < x" | "x = 0" | "x < 0" by linarith
  then have "- 1 < float64 (x / y) \<and> float64 (x / y) < 1"
  proof cases
    case 1
    with assms have "float64 (x / y) < 1" by (intro float64_quotient_less_1) simp_all
    moreover have "0 \<le> x / y" using 1 y by (intro divide_nonneg_pos) simp_all
    then have "0 \<le> float64 (x / y)" by (rule float64_nonneg)
    ultimately show ?thesis by simp
  next
    case 2
    then show ?thesis by simp
  next
    case 3
    then have "float64 (- x / y) < 1"
      using assms by (intro float64_quotient_less_1 is_float64_minus) simp_all
    then have a: "- 1 < float64 (x / y)" using float64_minus[of "x / y"] by simp
    have "0 \<le> - x / y" using 3 y by (intro divide_nonneg_pos) simp_all
    then have "0 \<le> float64 (- x / y)" by (rule float64_nonneg)
    then have "float64 (x / y) \<le> 0" using float64_minus[of "x / y"] by simp
    with a show ?thesis by simp
  qed
  then show "- 1 < float64 (x / y)" and "float64 (x / y) < 1" by simp_all
qed


lemma float32_0 [simp]: "float32 0 = 0"
  by (simp add: float32_def)


lemma float32_nonneg: "0 \<le> x \<Longrightarrow> 0 \<le> float32 x"
  unfolding float32_def by (rule round_float_pos_iff(3)) simp

subsection \<open>The integrators\<close>

lemma py_int_of_nat: "py_int (real k) = int k"
  by (simp add: py_int_def)

lemma py_int_truncation: "py_int x = (if 0 \<le> x then \<lfloor>\<bar>x\<bar>\<rfloor> else - \<lfloor>\<bar>x\<bar>\<rfloor>)"
  by (simp add: py_int_def ceiling_def)

lemma length_fold_update:
  "length (fold (\<lambda>k c. c[f k := g k c]) ks c) = length c"
  by (induction ks arbitrary: c) simp_all

lemma fold_update_invariant:
  "j < length c \<Longrightarrow>
   (let r = fold (\<lambda>k c. c[k + 1 := upd (c ! k)]) [0 ..< j] c
    in r ! 0 = c ! 0 \<and> (\<forall>i < j. r ! Suc i = upd (r ! i)) \<and> (\<forall>i. j < i \<longrightarrow> r ! i = c ! i))"
proof (induction j)
  case 0
  then show ?case by simp
next
  case (Suc j)
  let ?r = "fold (\<lambda>k c. c[k + 1 := upd (c ! k)]) [0 ..< j] c"
  from Suc have ih: "?r ! 0 = c ! 0" "\<forall>i < j. ?r ! Suc i = upd (?r ! i)" "\<forall>i. j < i \<longrightarrow> ?r ! i = c ! i"
    by (simp_all add: Let_def)
  have len: "length ?r = length c" by (rule length_fold_update)
  have step: "fold (\<lambda>k c. c[k + 1 := upd (c ! k)]) [0 ..< Suc j] c = ?r[Suc j := upd (?r ! j)]"
    by simp
  show ?case
    unfolding Let_def step using ih len Suc.prems
    by (auto simp: nth_list_update less_Suc_eq)
qed

lemma trajectory_Inr:
  assumes "0 < n"
  shows "\<exists>c. trajectory upd c_0 n = Inr c \<and> length c = n \<and> c ! 0 = upd c_0 \<and>
             (\<forall>i. Suc i < n \<longrightarrow> c ! Suc i = upd (c ! i))"
proof -
  let ?c0 = "(replicate n (0::real))[0 := upd c_0]"
  let ?r = "fold (\<lambda>k c. c[k + 1 := upd (c ! k)]) [0 ..< n - 1] ?c0"
  have "n - 1 < length ?c0" using assms by simp
  from fold_update_invariant[OF this, of upd]
  have inv: "?r ! 0 = ?c0 ! 0" "\<forall>i < n - 1. ?r ! Suc i = upd (?r ! i)"
    by (simp_all add: Let_def)
  have "trajectory upd c_0 n = Inr ?r" using assms by (simp add: trajectory_def)
  moreover have "length ?r = n" by (simp add: length_fold_update)
  moreover have "?r ! 0 = upd c_0" using inv(1) assms by simp
  moreover have "\<forall>i. Suc i < n \<longrightarrow> ?r ! Suc i = upd (?r ! i)" using inv(2) by auto
  ultimately show ?thesis by blast
qed

lemma trajectory_0: "trajectory upd c_0 0 = Inl IndexError"
  by (simp add: trajectory_def)


lemma f_CSF1RI_Inr:
  assumes "dt_cyto self \<noteq> 0" and "12 < length (log_p_cyto self)"
    and "1 \<le> py_int (float64 (interval / dt_cyto self))"
  shows "\<exists>c. f_CSF1RI self c_0 dose interval = Inr c \<and>
             int (length c) = py_int (float64 (interval / dt_cyto self)) \<and>
             c ! 0 = closed_form (a_CSF1RI self) (b_CSF1RI self) dose (dt_cyto self) c_0 \<and>
             (\<forall>i. Suc i < length c \<longrightarrow>
                c ! Suc i = closed_form (a_CSF1RI self) (b_CSF1RI self) dose (dt_cyto self) (c ! i))"
proof -
  let ?n = "nat (py_int (float64 (interval / dt_cyto self)))"
  have n: "0 < ?n" using assms(3) by simp
  from trajectory_Inr[OF n, of "closed_form (a_CSF1RI self) (b_CSF1RI self) dose (dt_cyto self)" c_0]
  obtain c where c: "trajectory (closed_form (a_CSF1RI self) (b_CSF1RI self) dose (dt_cyto self)) c_0 ?n = Inr c"
    "length c = ?n"
    "c ! 0 = closed_form (a_CSF1RI self) (b_CSF1RI self) dose (dt_cyto self) c_0"
    "\<forall>i. Suc i < ?n \<longrightarrow> c ! Suc i = closed_form (a_CSF1RI self) (b_CSF1RI self) dose (dt_cyto self) (c ! i)"
    by blast
  have "f_CSF1RI self c_0 dose interval = Inr c"
    using assms c(1) by (simp add: f_CSF1RI_def Let_def)
  moreover have "int (length c) = py_int (float64 (interval / dt_cyto self))"
    using c(2) assms(3) by simp
  ultimately show ?thesis using c(2,3,4) by auto
qed

lemma f_IGF1RI_Inr:
  assumes "dt_cyto self \<noteq> 0" and "15 < length (log_p_cyto self)"
    and "1 \<le> py_int (float64 (interval / dt_cyto self))"
  shows "\<exists>c. f_IGF1RI self c_0 dose C_T interval = Inr c \<and>
             int (length c) = py_int (float64 (interval / dt_cyto self)) \<and>
             c ! 0 = closed_form (a_IGF1RI self) (b_IGF1RI self C_T) dose (dt_cyto self) c_0 \<and>
             (\<forall>i. Suc i < length c \<longrightarrow>
                c ! Suc i = closed_form (a_IGF1RI self) (b_IGF1RI self C_T) dose (dt_cyto self) (c ! i))"
proof -
  let ?n = "nat (py_int (float64 (interval / dt_cyto self)))"
  let ?upd = "closed_form (a_IGF1RI self) (b_IGF1RI self C_T) dose (dt_cyto self)"
  have n: "0 < ?n" using assms(3) by simp
  from trajectory_Inr[OF n, of ?upd c_0]
  obtain c where c: "trajectory ?upd c_0 ?n = Inr c" "length c = ?n" "c ! 0 = ?upd c_0"
    "\<forall>i. Suc i < ?n \<longrightarrow> c ! Suc i = ?upd (c ! i)"
    by blast
  have "f_IGF1RI self c_0 dose C_T interval = Inr c"
    using assms c(1) by (simp add: f_IGF1RI_def Let_def)
  moreover have "int (length c) = py_int (float64 (interval / dt_cyto self))"
    using c(2) assms(3) by simp
  ultimately show ?thesis using c(2,3,4) by auto
qed


lemma py_int_ge_1: "(1 \<le> py_int r) = (1 \<le> r)"
  by (simp add: py_int_def le_floor_iff le_ceiling_iff)

lemma py_int_zero: "- 1 < r \<Longrightarrow> r < 1 \<Longrightarrow> py_int r = 0"
  by (simp add: py_int_def floor_eq_iff ceiling_eq_iff)

lemma py_int_neg: "r \<le> - 1 \<Longrightarrow> py_int r < 0"
  by (simp add: py_int_def ceiling_less_iff)

lemma substeps_multiple:
  assumes "dt \<noteq> 0" and "k \<le> 2 ^ 53"
  shows "py_int (float64 (real k * dt / dt)) = int k"
  using assms by (simp add: float64_of_nat py_int_of_nat)

lemma substeps_ge_1:
  assumes "0 < dt" and "is_float64 dt" and "is_float64 x"
  shows "(1 \<le> py_int (float64 (x / dt))) = (dt \<le> x)"
proof (cases "dt \<le> x")
  case True
  then have "1 \<le> x / dt" using assms(1) by simp
  then have "1 \<le> float64 (x / dt)" by (rule float64_ge_1)
  then show ?thesis using True by (simp add: py_int_ge_1)
next
  case False
  have "float64 (x / dt) < 1"
  proof (cases "\<bar>x\<bar> < dt")
    case True
    with assms show ?thesis by (intro float64_quotient_small(2))
  next
    case f: False
    with False have "x \<le> - dt" by simp
    then have "x / dt \<le> - 1" using assms(1) by (simp add: pos_divide_le_eq)
    then have "float64 (x / dt) \<le> - 1" by (rule float64_le_minus_1)
    then show ?thesis by simp
  qed
  then show ?thesis using False by (simp add: py_int_ge_1)
qed

lemma substeps_small:
  assumes "is_float64 dt" and "is_float64 x" and "\<bar>x\<bar> < dt"
  shows "py_int (float64 (x / dt)) = 0"
  using float64_quotient_small[OF assms(2,1,3)] by (intro py_int_zero)

lemma substeps_neg:
  assumes "0 < dt" and "x \<le> - dt"
  shows "py_int (float64 (x / dt)) < 0"
proof -
  have "x / dt \<le> - 1" using assms by (simp add: pos_divide_le_eq)
  then have "float64 (x / dt) \<le> - 1" by (rule float64_le_minus_1)
  then show ?thesis by (rule py_int_neg)
qed

lemma example_dt_value: "example_dt = 6004799503160661 / 288230376151711744"
  by (simp add: example_dt_def float64_def round_float_def float_exponent_def round_even_def)

lemma example_dt_float [simp]: "is_float64 example_dt"
  by (simp add: example_dt_def)

lemma example_dt_pos [simp]: "0 < example_dt" "example_dt \<noteq> 0"
  by (simp_all add: example_dt_value)

lemma example_model_simps:
  "dt_cyto (example_model w) = example_dt"
  "log_p_cyto (example_model w) = replicate 16 0"
  by (simp_all add: example_model_def)

lemma example_rates:
  "a_CSF1RI (example_model w) = 0.8"
  "b_CSF1RI (example_model w) = 0.004"
  "a_IGF1RI (example_model w) = 0.8"
  "b_IGF1RI (example_model w) C_T = 0.002 + 0.002 * C_T"
  by (simp_all add: a_CSF1RI_def b_CSF1RI_def a_IGF1RI_def b_IGF1RI_def example_model_def)

lemma f_CSF1RI_dt_cyto_update:
  "a_CSF1RI (self\<lparr>dt_cyto := d\<rparr>) = a_CSF1RI self"
  "b_CSF1RI (self\<lparr>dt_cyto := d\<rparr>) = b_CSF1RI self"
  by (simp_all add: a_CSF1RI_def b_CSF1RI_def)

text \<open>
  Claim C1 does not hold. With \<^verbatim>\<open>dt_cyto = 1/48\<close> and the interval \<^verbatim>\<open>7 * dt_cyto\<close>, both
  as Python computes them, the float quotient \<^verbatim>\<open>interval/self.dt_cyto\<close> lies below 7 and
  either integrator returns 6 values, not 7. With \<^verbatim>\<open>dt_cyto = 0.1\<close> and the interval
  \<^verbatim>\<open>0.5\<close>, which the float \<open>0.1\<close> does not divide evenly (the quotient of the two floats
  is below 5 and truncates to 4), the float quotient is rounded up to 5 and the
  integrator returns 5 values.
\<close>

theorem integrators_float_quotient:
  "float64 (7 * example_dt) / example_dt < 7 \<and>
   py_int (float64 (float64 (7 * example_dt) / example_dt)) = 6 \<and>
   (\<exists>c. f_CSF1RI (example_model 1) 0 1 (float64 (7 * example_dt)) = Inr c \<and> length c = 6) \<and>
   (\<exists>c. f_IGF1RI (example_model 1) 0 1 0.58 (float64 (7 * example_dt)) = Inr c \<and> length c = 6) \<and>
   float64 (1 / 2) = 1 / 2 \<and>
   (1 / 2) / float64 (1 / 10) < 5 \<and>
   py_int ((1 / 2) / float64 (1 / 10)) = 4 \<and>
   py_int (float64 ((1 / 2) / float64 (1 / 10))) = 5 \<and>
   (\<exists>c. f_CSF1RI ((example_model 1)\<lparr>dt_cyto := float64 (1 / 10)\<rparr>) 0 1 (1 / 2) = Inr c \<and>
        length c = 5)"
proof -
  have s: "float64 (7 * example_dt) = 2627099782632789 / 18014398509481984"
    by (simp add: example_dt_value float64_def round_float_def float_exponent_def round_even_def)
  have q: "float64 (float64 (7 * example_dt) / example_dt) = 7881299347898367 / 1125899906842624"
    unfolding s
    by (simp add: example_dt_value float64_def round_float_def float_exponent_def round_even_def)
  have a: "float64 (7 * example_dt) / example_dt < 7"
    unfolding s by (simp add: example_dt_value)
  have n: "py_int (float64 (float64 (7 * example_dt) / example_dt)) = 6"
    unfolding q by (simp add: py_int_def)
  have dt: "dt_cyto (example_model 1) \<noteq> 0" by (simp add: example_model_simps)
  have l12: "12 < length (log_p_cyto (example_model 1))"
    and l15: "15 < length (log_p_cyto (example_model 1))"
    by (simp_all add: example_model_simps)
  have one: "1 \<le> py_int (float64 (float64 (7 * example_dt) / dt_cyto (example_model 1)))"
    using n by (simp add: example_model_simps)
  have c: "\<exists>c. f_CSF1RI (example_model 1) 0 1 (float64 (7 * example_dt)) = Inr c \<and> length c = 6"
    using f_CSF1RI_Inr[OF dt l12 one, of 0 1] n by (auto simp: example_model_simps)
  have i: "\<exists>c. f_IGF1RI (example_model 1) 0 1 0.58 (float64 (7 * example_dt)) = Inr c \<and> length c = 6"
    using f_IGF1RI_Inr[OF dt l15 one, of 0 1 "0.58"] n by (auto simp: example_model_simps)
  have t: "float64 (1 / 10) = 3602879701896397 / 36028797018963968"
    by (simp add: float64_def round_float_def float_exponent_def round_even_def)
  have h: "float64 (1 / 2) = 1 / 2"
    by (simp add: float64_def round_float_def float_exponent_def round_even_def)
  have e: "(1 / 2) / float64 (1 / 10) < 5" unfolding t by simp
  have e4: "py_int ((1 / 2) / float64 (1 / 10)) = 4" unfolding t by (simp add: py_int_def)
  have e5: "py_int (float64 ((1 / 2) / float64 (1 / 10))) = 5"
    unfolding t
    by (simp add: py_int_def float64_def round_float_def float_exponent_def round_even_def)
  let ?m = "(example_model 1)\<lparr>dt_cyto := float64 (1 / 10)\<rparr>"
  have dt': "dt_cyto ?m \<noteq> 0" using t by simp
  have l12': "12 < length (log_p_cyto ?m)" by (simp add: example_model_simps)
  have one': "1 \<le> py_int (float64 ((1 / 2) / dt_cyto ?m))" using e5 by simp
  have c': "\<exists>c. f_CSF1RI ?m 0 1 (1 / 2) = Inr c \<and> length c = 5"
    using f_CSF1RI_Inr[OF dt' l12' one', of 0 1] e5 by auto
  from a n c i h e e4 e5 c' show ?thesis by blast
qed

text \<open>
  Claim C1, amended. Over a model with a non-zero substep size and its 16
  log-parameters, the number of values either integrator returns is
  \<^verbatim>\<open>int(interval/dt_cyto)\<close>, the truncation toward zero of the float nearest to the
  quotient (whenever that is at least 1). For an interval that is exactly \<open>k\<close> times
  \<open>dt_cyto\<close>, \<open>k\<close> from 1 to \<open>2^53\<close>, that number is \<open>k\<close>. The first value is
  \<open>(c0 - a*dose/(a+b)) * exp(-(a+b)*dt_cyto) + a*dose/(a+b)\<close>, and each later value is
  the same expression of its predecessor.
\<close>

theorem integrators_trajectory:
  assumes "dt_cyto self \<noteq> 0" and "16 \<le> length (log_p_cyto self)"
  shows "(0 < k \<and> k \<le> 2 ^ 53 \<and> interval = real k * dt_cyto self \<longrightarrow>
            (\<exists>c. f_CSF1RI self c_0 dose interval = Inr c \<and> length c = k) \<and>
            (\<exists>c. f_IGF1RI self c_0 dose C_T interval = Inr c \<and> length c = k)) \<and>
         (1 \<le> py_int (float64 (interval / dt_cyto self)) \<longrightarrow>
            (\<exists>c. f_CSF1RI self c_0 dose interval = Inr c \<and>
                  int (length c) = py_int (float64 (interval / dt_cyto self)) \<and>
                  c ! 0 = (c_0 - a_CSF1RI self * dose / (a_CSF1RI self + b_CSF1RI self))
                            * exp (- (a_CSF1RI self + b_CSF1RI self) * dt_cyto self)
                          + a_CSF1RI self * dose / (a_CSF1RI self + b_CSF1RI self) \<and>
                  (\<forall>i. Suc i < length c \<longrightarrow>
                     c ! Suc i = (c ! i - a_CSF1RI self * dose / (a_CSF1RI self + b_CSF1RI self))
                                   * exp (- (a_CSF1RI self + b_CSF1RI self) * dt_cyto self)
                                 + a_CSF1RI self * dose / (a_CSF1RI self + b_CSF1RI self))) \<and>
            (\<exists>c. f_IGF1RI self c_0 dose C_T interval = Inr c \<and>
                  int (length c) = py_int (float64 (interval / dt_cyto self)) \<and>
                  c ! 0 = (c_0 - a_IGF1RI self * dose / (a_IGF1RI self + b_IGF1RI self C_T))
                            * exp (- (a_IGF1RI self + b_IGF1RI self C_T) * dt_cyto self)
                          + a_IGF1RI self * dose / (a_IGF1RI self + b_IGF1RI self C_T) \<and>
                  (\<forall>i. Suc i < length c \<longrightarrow>
                     c ! Suc i = (c ! i - a_IGF1RI self * dose / (a_IGF1RI self + b_IGF1RI self C_T))
                                   * exp (- (a_IGF1RI self + b_IGF1RI self C_T) * dt_cyto self)
                                 + a_IGF1RI self * dose / (a_IGF1RI self + b_IGF1RI self C_T)))) \<and>
         (0 < k \<and> k \<le> 2 ^ 53 \<and> interval = real k * dt_cyto self \<longrightarrow>
            py_int (float64 (interval / dt_cyto self)) = int k) \<and>
         py_int x = (if 0 \<le> x then \<lfloor>\<bar>x\<bar>\<rfloor> else - \<lfloor>\<bar>x\<bar>\<rfloor>)"
proof -
  have l12: "12 < length (log_p_cyto self)" and l15: "15 < length (log_p_cyto self)"
    using assms(2) by simp_all
  have m: "py_int (float64 (interval / dt_cyto self)) = int k"
    if "0 < k \<and> k \<le> 2 ^ 53 \<and> interval = real k * dt_cyto self"
    using that assms(1) substeps_multiple[of "dt_cyto self" k] by simp
  have g: "(\<exists>c. f_CSF1RI self c_0 dose interval = Inr c \<and>
                  int (length c) = py_int (float64 (interval / dt_cyto self)) \<and>
                  c ! 0 = (c_0 - a_CSF1RI self * dose / (a_CSF1RI self + b_CSF1RI self))
                            * exp (- (a_CSF1RI self + b_CSF1RI self) * dt_cyto self)
                          + a_CSF1RI self * dose / (a_CSF1RI self + b_CSF1RI self) \<and>
                  (\<forall>i. Suc i < length c \<longrightarrow>
                     c ! Suc i = (c ! i - a_CSF1RI self * dose / (a_CSF1RI self + b_CSF1RI self))
                                   * exp (- (a_CSF1RI self + b_CSF1RI self) * dt_cyto self)
                                 + a_CSF1RI self * dose / (a_CSF1RI self + b_CSF1RI self))) \<and>
            (\<exists>c. f_IGF1RI self c_0 dose C_T interval = Inr c \<and>
                  int (length c) = py_int (float64 (interval / dt_cyto self)) \<and>
                  c ! 0 = (c_0 - a_IGF1RI self * dose / (a_IGF1RI self + b_IGF1RI self C_T))
                            * exp (- (a_IGF1RI self + b_IGF1RI self C_T) * dt_cyto self)
                          + a_IGF1RI self * dose / (a_IGF1RI self + b_IGF1RI self C_T) \<and>
                  (\<forall>i. Suc i < length c \<longrightarrow>
                     c ! Suc i = (c ! i - a_IGF1RI self * dose / (a_IGF1RI self + b_IGF1RI self C_T))
                                   * exp (- (a_IGF1RI self + b_IGF1RI self C_T) * dt_cyto self)
                                 + a_IGF1RI self * dose / (a_IGF1RI self + b_IGF1RI self C_T)))"
    if one: "1 \<le> py_int (float64 (interval / dt_cyto self))"
    using f_CSF1RI_Inr[OF assms(1) l12 one, of c_0 dose]
          f_IGF1RI_Inr[OF assms(1) l15 one, of c_0 dose C_T]
    unfolding closed_form_def by simp
  have e: "(\<exists>c. f_CSF1RI self c_0 dose interval = Inr c \<and> length c = k) \<and>
           (\<exists>c. f_IGF1RI self c_0 dose C_T interval = Inr c \<and> length c = k)"
    if k: "0 < k \<and> k \<le> 2 ^ 53 \<and> interval = real k * dt_cyto self"
  proof -
    have one: "1 \<le> py_int (float64 (interval / dt_cyto self))" using m[OF k] k by simp
    from g[OF one] m[OF k] show ?thesis by auto
  qed
  have t: "py_int x = (if 0 \<le> x then \<lfloor>\<bar>x\<bar>\<rfloor> else - \<lfloor>\<bar>x\<bar>\<rfloor>)" by (rule py_int_truncation)
  from e g m t show ?thesis by blast
qed

text \<open>
  Witness of C1: four substeps of \<^verbatim>\<open>1/48\<close>; \<open>7/2\<close> and \<open>-7/2\<close> truncate to \<open>3\<close> and \<open>-3\<close>.
\<close>

theorem integrators_trajectory_witness:
  "(\<exists>c. f_CSF1RI (example_model 1) 0 1 (4 * example_dt) = Inr c \<and> length c = 4 \<and>
        c ! 0 = (0 - 0.8 * 1 / (0.8 + 0.004)) * exp (- (0.8 + 0.004) * example_dt)
                + 0.8 * 1 / (0.8 + 0.004) \<and>
        c ! 1 = (c ! 0 - 0.8 * 1 / (0.8 + 0.004)) * exp (- (0.8 + 0.004) * example_dt)
                + 0.8 * 1 / (0.8 + 0.004)) \<and>
   (\<exists>c. f_IGF1RI (example_model 1) 0 1 0.58 (4 * example_dt) = Inr c \<and> length c = 4) \<and>
   py_int (float64 (4 * example_dt / example_dt)) = 4 \<and>
   py_int (7 / 2) = 3 \<and> py_int (- 7 / 2) = - 3"
proof -
  have dt: "dt_cyto (example_model 1) \<noteq> 0" by (simp add: example_model_simps)
  have lp: "16 \<le> length (log_p_cyto (example_model 1))" by (simp add: example_model_simps)
  have k: "0 < (4::nat) \<and> (4::nat) \<le> 2 ^ 53 \<and> 4 * example_dt = real 4 * dt_cyto (example_model 1)"
    by (simp add: example_model_simps)
  note t = integrators_trajectory[OF dt lp, of 4 "4 * example_dt" 0 1 "0.58"]
  from t[of 0] k have n: "py_int (float64 (4 * example_dt / dt_cyto (example_model 1))) = 4"
    by simp
  then have one: "1 \<le> py_int (float64 (4 * example_dt / dt_cyto (example_model 1)))" by simp
  from t[of 0] one n obtain c where c: "f_CSF1RI (example_model 1) 0 1 (4 * example_dt) = Inr c"
    "int (length c) = 4"
    "c ! 0 = (0 - a_CSF1RI (example_model 1) * 1 / (a_CSF1RI (example_model 1) + b_CSF1RI (example_model 1)))
               * exp (- (a_CSF1RI (example_model 1) + b_CSF1RI (example_model 1)) * dt_cyto (example_model 1))
             + a_CSF1RI (example_model 1) * 1 / (a_CSF1RI (example_model 1) + b_CSF1RI (example_model 1))"
    "\<forall>i. Suc i < length c \<longrightarrow>
        c ! Suc i = (c ! i - a_CSF1RI (example_model 1) * 1 / (a_CSF1RI (example_model 1) + b_CSF1RI (example_model 1)))
               * exp (- (a_CSF1RI (example_model 1) + b_CSF1RI (example_model 1)) * dt_cyto (example_model 1))
             + a_CSF1RI (example_model 1) * 1 / (a_CSF1RI (example_model 1) + b_CSF1RI (example_model 1))"
    by auto
  have len: "length c = 4" using c(2) by simp
  from c(4) len have c1:
    "c ! Suc 0 = (c ! 0 - a_CSF1RI (example_model 1) * 1 / (a_CSF1RI (example_model 1) + b_CSF1RI (example_model 1)))
               * exp (- (a_CSF1RI (example_model 1) + b_CSF1RI (example_model 1)) * dt_cyto (example_model 1))
             + a_CSF1RI (example_model 1) * 1 / (a_CSF1RI (example_model 1) + b_CSF1RI (example_model 1))"
    by simp
  have first: "\<exists>c. f_CSF1RI (example_model 1) 0 1 (4 * example_dt) = Inr c \<and> length c = 4 \<and>
        c ! 0 = (0 - 0.8 * 1 / (0.8 + 0.004)) * exp (- (0.8 + 0.004) * example_dt)
                + 0.8 * 1 / (0.8 + 0.004) \<and>
        c ! 1 = (c ! 0 - 0.8 * 1 / (0.8 + 0.004)) * exp (- (0.8 + 0.004) * example_dt)
                + 0.8 * 1 / (0.8 + 0.004)"
    using c(1) len c(3) c1 unfolding example_rates example_model_simps by auto
  from t[of 0] k have second:
    "\<exists>c. f_IGF1RI (example_model 1) 0 1 0.58 (4 * example_dt) = Inr c \<and> length c = 4"
    by blast
  have third: "py_int (float64 (4 * example_dt / example_dt)) = 4"
    using n by (simp add: example_model_simps)
  from t[of "7 / 2"] have fourth: "py_int (7 / 2) = 3" by simp
  from t[of "- 7 / 2"] have fifth: "py_int (- 7 / 2) = - 3" by simp
  from first second third fourth fifth show ?thesis by blast
qed

lemma f_CSF1RI_InrD:
  "f_CSF1RI self c_0 dose interval = Inr c \<Longrightarrow>
   dt_cyto self \<noteq> 0 \<and> 12 < length (log_p_cyto self) \<and> 1 \<le> py_int (float64 (interval / dt_cyto self))"
  by (auto simp: f_CSF1RI_def Let_def trajectory_def split: if_splits)

lemma f_IGF1RI_InrD:
  "f_IGF1RI self c_0 dose C_T interval = Inr c \<Longrightarrow>
   dt_cyto self \<noteq> 0 \<and> 15 < length (log_p_cyto self) \<and> 1 \<le> py_int (float64 (interval / dt_cyto self))"
  by (auto simp: f_IGF1RI_def Let_def trajectory_def split: if_splits)

lemma f_CSF1RI_Inr_props:
  assumes "f_CSF1RI self c_0 dose interval = Inr c"
  shows "int (length c) = py_int (float64 (interval / dt_cyto self)) \<and>
         c ! 0 = closed_form (a_CSF1RI self) (b_CSF1RI self) dose (dt_cyto self) c_0 \<and>
         (\<forall>i. Suc i < length c \<longrightarrow>
            c ! Suc i = closed_form (a_CSF1RI self) (b_CSF1RI self) dose (dt_cyto self) (c ! i))"
  using f_CSF1RI_InrD[OF assms] f_CSF1RI_Inr[of self interval c_0 dose] assms by auto

lemma f_IGF1RI_Inr_props:
  assumes "f_IGF1RI self c_0 dose C_T interval = Inr c"
  shows "int (length c) = py_int (float64 (interval / dt_cyto self)) \<and>
         c ! 0 = closed_form (a_IGF1RI self) (b_IGF1RI self C_T) dose (dt_cyto self) c_0 \<and>
         (\<forall>i. Suc i < length c \<longrightarrow>
            c ! Suc i = closed_form (a_IGF1RI self) (b_IGF1RI self C_T) dose (dt_cyto self) (c ! i))"
  using f_IGF1RI_InrD[OF assms] f_IGF1RI_Inr[of self interval c_0 dose C_T] assms by auto

lemma f_CSF1RI_count_0:
  "dt_cyto self \<noteq> 0 \<Longrightarrow> 12 < length (log_p_cyto self) \<Longrightarrow> py_int (float64 (interval / dt_cyto self)) = 0 \<Longrightarrow>
   f_CSF1RI self c_0 dose interval = Inl IndexError"
  by (simp add: f_CSF1RI_def trajectory_def)

lemma f_IGF1RI_count_0:
  "dt_cyto self \<noteq> 0 \<Longrightarrow> 15 < length (log_p_cyto self) \<Longrightarrow> py_int (float64 (interval / dt_cyto self)) = 0 \<Longrightarrow>
   f_IGF1RI self c_0 dose C_T interval = Inl IndexError"
  by (simp add: f_IGF1RI_def trajectory_def)

lemma f_CSF1RI_count_neg:
  "dt_cyto self \<noteq> 0 \<Longrightarrow> py_int (float64 (interval / dt_cyto self)) < 0 \<Longrightarrow>
   f_CSF1RI self c_0 dose interval = Inl RuntimeError"
  by (simp add: f_CSF1RI_def)

lemma f_IGF1RI_count_neg:
  "dt_cyto self \<noteq> 0 \<Longrightarrow> py_int (float64 (interval / dt_cyto self)) < 0 \<Longrightarrow>
   f_IGF1RI self c_0 dose C_T interval = Inl RuntimeError"
  by (simp add: f_IGF1RI_def)

text \<open>
  Claim C10. Over a model with a positive substep size and its 16 log-parameters, for an
  interval and a substep size that are Python floats, either integrator returns exactly
  when \<^verbatim>\<open>int(interval/dt_cyto)\<close> is at least 1, that is when the interval is at least one
  substep. For an interval from 0 up to, not including, \<open>dt_cyto\<close> the count truncates to
  0 and the write to \<^verbatim>\<open>c[0]\<close> is out of bounds. (A negative interval above \<open>-dt_cyto\<close>
  behaves the same; from \<open>-dt_cyto\<close> downwards the count is negative and \<^verbatim>\<open>torch.empty\<close>
  raises.)
\<close>

theorem integrators_precondition:
  assumes "0 < dt_cyto self" and "16 \<le> length (log_p_cyto self)"
    and "is_float64 (dt_cyto self)" and "is_float64 interval"
  shows "((\<exists>c. f_CSF1RI self c_0 dose interval = Inr c)
            \<longleftrightarrow> 1 \<le> py_int (float64 (interval / dt_cyto self))) \<and>
         ((\<exists>c. f_IGF1RI self c_0 dose C_T interval = Inr c)
            \<longleftrightarrow> 1 \<le> py_int (float64 (interval / dt_cyto self))) \<and>
         (1 \<le> py_int (float64 (interval / dt_cyto self)) \<longleftrightarrow> dt_cyto self \<le> interval) \<and>
         (0 \<le> interval \<and> interval < dt_cyto self \<longrightarrow>
            py_int (float64 (interval / dt_cyto self)) = 0 \<and>
            f_CSF1RI self c_0 dose interval = Inl IndexError \<and>
            f_IGF1RI self c_0 dose C_T interval = Inl IndexError) \<and>
         (- dt_cyto self < interval \<and> interval < 0 \<longrightarrow>
            py_int (float64 (interval / dt_cyto self)) = 0 \<and>
            f_CSF1RI self c_0 dose interval = Inl IndexError \<and>
            f_IGF1RI self c_0 dose C_T interval = Inl IndexError) \<and>
         (interval \<le> - dt_cyto self \<longrightarrow>
            py_int (float64 (interval / dt_cyto self)) < 0 \<and>
            f_CSF1RI self c_0 dose interval = Inl RuntimeError \<and>
            f_IGF1RI self c_0 dose C_T interval = Inl RuntimeError)"
proof -
  have dt: "dt_cyto self \<noteq> 0" and l12: "12 < length (log_p_cyto self)"
    and l15: "15 < length (log_p_cyto self)"
    using assms by simp_all
  have a: "(\<exists>c. f_CSF1RI self c_0 dose interval = Inr c)
             \<longleftrightarrow> 1 \<le> py_int (float64 (interval / dt_cyto self))"
    using f_CSF1RI_InrD[of self c_0 dose interval] f_CSF1RI_Inr[OF dt l12, of interval c_0 dose]
    by blast
  have b: "(\<exists>c. f_IGF1RI self c_0 dose C_T interval = Inr c)
             \<longleftrightarrow> 1 \<le> py_int (float64 (interval / dt_cyto self))"
    using f_IGF1RI_InrD[of self c_0 dose C_T interval] f_IGF1RI_Inr[OF dt l15, of interval c_0 dose C_T]
    by blast
  have c: "1 \<le> py_int (float64 (interval / dt_cyto self)) \<longleftrightarrow> dt_cyto self \<le> interval"
    by (rule substeps_ge_1[OF assms(1,3,4)])
  have d: "\<bar>interval\<bar> < dt_cyto self \<longrightarrow>
            py_int (float64 (interval / dt_cyto self)) = 0 \<and>
            f_CSF1RI self c_0 dose interval = Inl IndexError \<and>
            f_IGF1RI self c_0 dose C_T interval = Inl IndexError"
    using substeps_small[OF assms(3,4)] f_CSF1RI_count_0[OF dt l12] f_IGF1RI_count_0[OF dt l15]
    by blast
  have e: "interval \<le> - dt_cyto self \<longrightarrow>
            py_int (float64 (interval / dt_cyto self)) < 0 \<and>
            f_CSF1RI self c_0 dose interval = Inl RuntimeError \<and>
            f_IGF1RI self c_0 dose C_T interval = Inl RuntimeError"
    using substeps_neg[OF assms(1), of interval] f_CSF1RI_count_neg[OF dt] f_IGF1RI_count_neg[OF dt]
    by blast
  from d have d1: "0 \<le> interval \<and> interval < dt_cyto self \<longrightarrow>
            py_int (float64 (interval / dt_cyto self)) = 0 \<and>
            f_CSF1RI self c_0 dose interval = Inl IndexError \<and>
            f_IGF1RI self c_0 dose C_T interval = Inl IndexError"
    by simp
  from d assms(1) have d2: "- dt_cyto self < interval \<and> interval < 0 \<longrightarrow>
            py_int (float64 (interval / dt_cyto self)) = 0 \<and>
            f_CSF1RI self c_0 dose interval = Inl IndexError \<and>
            f_IGF1RI self c_0 dose C_T interval = Inl IndexError"
    by simp
  from a b c d1 d2 e show ?thesis by blast
qed

lemma float64_96: "float64 (1 / 96) = example_dt / 2"
  by (simp add: example_dt_value float64_def round_float_def float_exponent_def round_even_def)

text \<open>
  Witness of C10: half a substep (\<^verbatim>\<open>1/96\<close>), no time at all, negative intervals, one
  substep.
\<close>

theorem integrators_precondition_witness:
  "is_float64 (float64 (1 / 96)) \<and> 0 \<le> float64 (1 / 96) \<and> float64 (1 / 96) < example_dt \<and>
   py_int (float64 (float64 (1 / 96) / example_dt)) = 0 \<and>
   f_CSF1RI (example_model 1) 0 1 (float64 (1 / 96)) = Inl IndexError \<and>
   f_IGF1RI (example_model 1) 0 1 0.58 (float64 (1 / 96)) = Inl IndexError \<and>
   f_CSF1RI (example_model 1) 0 1 0 = Inl IndexError \<and>
   f_CSF1RI (example_model 1) 0 1 (- float64 (1 / 96)) = Inl IndexError \<and>
   f_CSF1RI (example_model 1) 0 1 (- 1) = Inl RuntimeError \<and>
   (\<exists>c. f_CSF1RI (example_model 1) 0 1 example_dt = Inr c) \<and>
   (\<exists>c. f_IGF1RI (example_model 1) 0 1 0.58 example_dt = Inr c)"
proof -
  have dt: "0 < dt_cyto (example_model 1)" by (simp add: example_model_simps)
  have lp: "16 \<le> length (log_p_cyto (example_model 1))" by (simp add: example_model_simps)
  have fd: "is_float64 (dt_cyto (example_model 1))" by (simp add: example_model_simps)
  have h: "0 \<le> float64 (1 / 96)" "float64 (1 / 96) < example_dt"
    "- example_dt < - float64 (1 / 96)" "- float64 (1 / 96) < 0"
    by (simp_all add: float64_96 example_dt_value)
  have m1: "is_float64 (- 1)" using is_float64_minus[of 1] by (simp add: is_float64_def)
  have lt: "- 1 \<le> - example_dt" by (simp add: example_dt_value)
  note t = integrators_precondition[OF dt lp fd]
  have "py_int (float64 (float64 (1 / 96) / example_dt)) = 0 \<and>
   f_CSF1RI (example_model 1) 0 1 (float64 (1 / 96)) = Inl IndexError \<and>
   f_IGF1RI (example_model 1) 0 1 0.58 (float64 (1 / 96)) = Inl IndexError"
    using t[of "float64 (1 / 96)" 0 1 "0.58"] h by (simp add: example_model_simps)
  moreover have "f_CSF1RI (example_model 1) 0 1 0 = Inl IndexError"
    using t[of 0 0 1 "0.58"] by (simp add: example_model_simps)
  moreover have "f_CSF1RI (example_model 1) 0 1 (- float64 (1 / 96)) = Inl IndexError"
    using t[of "- float64 (1 / 96)" 0 1 "0.58"] h is_float64_minus[of "float64 (1 / 96)"]
    by (simp add: example_model_simps)
  moreover have "f_CSF1RI (example_model 1) 0 1 (- 1) = Inl RuntimeError"
    using t[OF m1, of 0 1 "0.58"] lt by (simp add: example_model_simps)
  moreover have "(\<exists>c. f_CSF1RI (example_model 1) 0 1 example_dt = Inr c) \<and>
   (\<exists>c. f_IGF1RI (example_model 1) 0 1 0.58 example_dt = Inr c)"
    using t[of example_dt 0 1 "0.58"] by (simp add: example_model_simps)
  ultimately show ?thesis using h by simp
qed

subsection \<open>The prediction\<close>

lemma py_get_last: "py_get xs (- 1) = (if xs = [] then Inl IndexError else Inr (last xs))"
  by (cases xs rule: rev_cases) (auto simp: py_get_def nth_append)

lemma f_CSF1RI_training [simp]:
  "f_CSF1RI (self\<lparr>training := b\<rparr>) c_0 dose interval = f_CSF1RI self c_0 dose interval"
  by (simp add: f_CSF1RI_def a_CSF1RI_def b_CSF1RI_def Let_def)

lemma f_IGF1RI_training [simp]:
  "f_IGF1RI (self\<lparr>training := b\<rparr>) c_0 dose C_T interval = f_IGF1RI self c_0 dose C_T interval"
  by (simp add: f_IGF1RI_def a_IGF1RI_def b_IGF1RI_def Let_def)

lemma f_CSF1RI_nonempty: "f_CSF1RI self c_0 dose interval = Inr c \<Longrightarrow> c \<noteq> []"
  using f_CSF1RI_Inr_props[of self c_0 dose interval c] f_CSF1RI_InrD[of self c_0 dose interval c]
  by auto

lemma f_IGF1RI_nonempty: "f_IGF1RI self c_0 dose C_T interval = Inr c \<Longrightarrow> c \<noteq> []"
  using f_IGF1RI_Inr_props[of self c_0 dose C_T interval c] f_IGF1RI_InrD[of self c_0 dose C_T interval c]
  by auto

lemma net_u_CC_columns:
  assumes "length t = length C" "length dose_c = length C" "length dose_cum = length C"
    "length dose_I = length C"
  shows "\<exists>p. net_u_CC self C t dose_c dose_cum dose_I = Inr p \<and> length p = length C"
  using assms by (simp add: net_u_CC_def Let_def)

lemma snd_predict_DRL_FP:
  "snd (predict_DRL_FP self c t dose_c cum dose_I c_C c_I c_T interval) = self\<lparr>training := False\<rparr>"
  by (simp add: predict_DRL_FP_def Let_def split: sum.splits)

lemma predict_DRL_FP_cases:
  "fst (predict_DRL_FP self c t dose_c cum dose_I c_C c_I c_T interval) =
     (case f_CSF1RI self c_C dose_c interval of
        Inl e \<Rightarrow> Inl e
      | Inr c_CSF1RI \<Rightarrow>
          (case f_IGF1RI self c_I dose_I c_T interval of
             Inl e \<Rightarrow> Inl e
           | Inr c_IGF1RI \<Rightarrow>
               (case net_u_CC (self\<lparr>training := False\<rparr>) c (map (\<lambda>x. t) c) (map (\<lambda>x. last c_CSF1RI) c)
                       (map (\<lambda>x. cum + sum_list c_CSF1RI) c) (map (\<lambda>x. last c_IGF1RI) c) of
                  Inl e \<Rightarrow> Inl e
                | Inr uTC_pred \<Rightarrow>
                    if c = [] then Inl IndexError
                    else Inr (map (\<lambda>u. if u < 0 then 0 else u) uTC_pred, cum + sum_list c_CSF1RI,
                              last c_CSF1RI, last c_IGF1RI))))"
  by (auto simp: predict_DRL_FP_def Let_def py_get_last o_def last_map
           dest: f_CSF1RI_nonempty f_IGF1RI_nonempty split: sum.splits)


lemma net_u_CC_training [simp]:
  "net_u_CC (self\<lparr>training := b\<rparr>) C t dose_c dose_cum dose_I = net_u_CC self C t dose_c dose_cum dose_I"
  by (simp add: net_u_CC_def Let_def)

lemma net_u_CC_const_columns:
  "\<exists>p. net_u_CC self c (map (\<lambda>x. t) c) (map (\<lambda>x. a) c) (map (\<lambda>x. b) c) (map (\<lambda>x. d) c) = Inr p \<and>
       length p = length c"
  by (rule net_u_CC_columns) simp_all

lemma example_f_CSF1RI: "f_CSF1RI (example_model w) 0 0 example_dt = Inr [0]"
  by (simp add: f_CSF1RI_def trajectory_def closed_form_def example_model_def py_int_def)

lemma example_f_CSF1RI_half: "f_CSF1RI (example_model w) 0 0 (float64 (1 / 96)) = Inl IndexError"
proof -
  have "float64 (1 / 2) = 1 / 2"
    by (simp add: float64_def round_float_def float_exponent_def round_even_def)
  then show ?thesis
    by (simp add: f_CSF1RI_def trajectory_def example_model_def py_int_def float64_96)
qed

lemma example_f_IGF1RI: "f_IGF1RI (example_model w) 0 0 c_T example_dt = Inr [0]"
  by (simp add: f_IGF1RI_def trajectory_def closed_form_def example_model_def py_int_def)

lemma example_net_u_CC:
  "net_u_CC (example_model w) example_cc [t, t, t, t] [a, a, a, a] [b, b, b, b] [d, d, d, d]
     = Inr [w, 1, 1, 1]"
  by (simp add: net_u_CC_def example_model_def example_cc_def)

lemma example_predict:
  "fst (predict_DRL_FP (example_model w) example_cc t 0 cum 0 0 0 c_T example_dt)
     = Inr ([if w < 0 then 0 else w, 1, 1, 1], cum, 0, 0)"
proof -
  have cc: "example_cc \<noteq> []" "map (\<lambda>x. v) example_cc = [v, v, v, v]" for v :: real
    by (simp_all add: example_cc_def)
  show ?thesis
    by (simp add: predict_DRL_FP_cases example_f_CSF1RI example_f_IGF1RI cc example_net_u_CC)
qed

lemma predict_DRL_FP_Inr_iff:
  "(\<exists>r. fst (predict_DRL_FP self c t dose_c cum dose_I c_C c_I c_T interval) = Inr r) \<longleftrightarrow>
   dt_cyto self \<noteq> 0 \<and> 15 < length (log_p_cyto self) \<and> 1 \<le> py_int (float64 (interval / dt_cyto self)) \<and> c \<noteq> []"
proof
  assume "\<exists>r. fst (predict_DRL_FP self c t dose_c cum dose_I c_C c_I c_T interval) = Inr r"
  then show "dt_cyto self \<noteq> 0 \<and> 15 < length (log_p_cyto self) \<and>
             1 \<le> py_int (float64 (interval / dt_cyto self)) \<and> c \<noteq> []"
    by (auto simp: predict_DRL_FP_cases split: sum.splits if_splits dest: f_IGF1RI_InrD)
next
  assume a: "dt_cyto self \<noteq> 0 \<and> 15 < length (log_p_cyto self) \<and>
             1 \<le> py_int (float64 (interval / dt_cyto self)) \<and> c \<noteq> []"
  then obtain tc where tc: "f_CSF1RI self c_C dose_c interval = Inr tc"
    using f_CSF1RI_Inr[of self interval c_C dose_c] by auto
  from a obtain ti where ti: "f_IGF1RI self c_I dose_I c_T interval = Inr ti"
    using f_IGF1RI_Inr[of self interval c_I dose_I c_T] by auto
  obtain p where p: "net_u_CC self c (map (\<lambda>x. t) c) (map (\<lambda>x. last tc) c)
      (map (\<lambda>x. cum + sum_list tc) c) (map (\<lambda>x. last ti) c) = Inr p"
    using net_u_CC_const_columns by blast
  show "\<exists>r. fst (predict_DRL_FP self c t dose_c cum dose_I c_C c_I c_T interval) = Inr r"
    using a by (simp add: predict_DRL_FP_cases tc ti p)
qed

lemma predict_DRL_FP_InrD:
  assumes "fst (predict_DRL_FP self c t dose_c cum dose_I c_C c_I c_T interval)
             = Inr (uTC_pred, cum', c_C', c_I')"
  shows "\<exists>tc ti raw.
           f_CSF1RI self c_C dose_c interval = Inr tc \<and>
           f_IGF1RI self c_I dose_I c_T interval = Inr ti \<and>
           net_u_CC self c (map (\<lambda>x. t) c) (map (\<lambda>x. last tc) c)
             (map (\<lambda>x. cum + sum_list tc) c) (map (\<lambda>x. last ti) c) = Inr raw \<and>
           length raw = length c \<and>
           uTC_pred = map (max 0) raw \<and> cum' = cum + sum_list tc \<and> c_C' = last tc \<and> c_I' = last ti"
proof -
  from assms obtain tc ti raw where
    tc: "f_CSF1RI self c_C dose_c interval = Inr tc" and
    ti: "f_IGF1RI self c_I dose_I c_T interval = Inr ti" and
    raw: "net_u_CC self c (map (\<lambda>x. t) c) (map (\<lambda>x. last tc) c)
             (map (\<lambda>x. cum + sum_list tc) c) (map (\<lambda>x. last ti) c) = Inr raw" and
    r: "uTC_pred = map (\<lambda>u. if u < 0 then 0 else u) raw" "cum' = cum + sum_list tc"
       "c_C' = last tc" "c_I' = last ti"
    by (auto simp: predict_DRL_FP_cases split: sum.splits if_splits)
  have "(\<lambda>u::real. if u < 0 then 0 else u) = max 0" by (auto simp: max_def)
  with r(1) have "uTC_pred = map (max 0) raw" by simp
  moreover have "length raw = length c"
    using net_u_CC_const_columns[of self c t "last tc" "cum + sum_list tc" "last ti"] raw by simp
  ultimately show ?thesis using tc ti raw r by blast
qed

text \<open>
  Claim C3 does not hold for every input: \<^verbatim>\<open>predict_DRL_FP\<close> raises when the interval is
  shorter than one substep (here half of \<open>dt_cyto\<close>) and when the vector of bins is empty.
\<close>

theorem predict_DRL_FP_raises:
  "fst (predict_DRL_FP (example_model 1) example_cc example_dt 0 0 0 0 0 0.58 (float64 (1 / 96))) = Inl IndexError \<and>
   fst (predict_DRL_FP (example_model 1) [] example_dt 0 0 0 0 0 0.58 example_dt) = Inl IndexError"
proof -
  have "f_CSF1RI (example_model 1) 0 0 (float64 (1 / 96)) = Inl IndexError"
    by (rule example_f_CSF1RI_half)
  then have a: "fst (predict_DRL_FP (example_model 1) example_cc example_dt 0 0 0 0 0 0.58 (float64 (1 / 96)))
                  = Inl IndexError"
    by (simp add: predict_DRL_FP_cases)
  have "net_u_CC (example_model 1) [] [] [] [] [] = Inr []"
    by (simp add: net_u_CC_def)
  then have b: "fst (predict_DRL_FP (example_model 1) [] example_dt 0 0 0 0 0 0.58 example_dt)
                  = Inl IndexError"
    by (simp add: predict_DRL_FP_cases example_f_CSF1RI example_f_IGF1RI)
  from a b show ?thesis by simp
qed

text \<open>
  Claim C3, amended. \<^verbatim>\<open>predict_DRL_FP\<close> returns exactly when the substep size is not 0,
  the model has its 16 log-parameters, \<^verbatim>\<open>int(interval/dt_cyto)\<close> is at least 1 and there
  is at least one bin. Whenever it returns, the density vector has one entry per bin,
  each the raw output of the network clamped at 0, so none is negative. Returning or
  raising, the call leaves every attribute of the model as it was, but for the mode flag
  of the network, which \<^verbatim>\<open>eval()\<close> clears.
\<close>

theorem predict_DRL_FP_density:
  "((\<exists>r. fst (predict_DRL_FP self c t dose_c cum dose_I c_C c_I c_T interval) = Inr r) \<longleftrightarrow>
      dt_cyto self \<noteq> 0 \<and> 16 \<le> length (log_p_cyto self) \<and>
      1 \<le> py_int (float64 (interval / dt_cyto self)) \<and> c \<noteq> []) \<and>
   (fst (predict_DRL_FP self c t dose_c cum dose_I c_C c_I c_T interval)
      = Inr (uTC_pred, cum', c_C', c_I') \<longrightarrow>
      length uTC_pred = length c \<and> (\<forall>u \<in> set uTC_pred. 0 \<le> u) \<and>
      (\<exists>tc ti raw.
         f_CSF1RI self c_C dose_c interval = Inr tc \<and>
         f_IGF1RI self c_I dose_I c_T interval = Inr ti \<and>
         net_u_CC self c (map (\<lambda>x. t) c) (map (\<lambda>x. last tc) c)
           (map (\<lambda>x. cum + sum_list tc) c) (map (\<lambda>x. last ti) c) = Inr raw \<and>
         uTC_pred = map (max 0) raw)) \<and>
   snd (predict_DRL_FP self c t dose_c cum dose_I c_C c_I c_T interval) = self\<lparr>training := False\<rparr> \<and>
   log_p_cyto (snd (predict_DRL_FP self c t dose_c cum dose_I c_C c_I c_T interval)) = log_p_cyto self \<and>
   dnn_TC (snd (predict_DRL_FP self c t dose_c cum dose_I c_C c_I c_T interval)) = dnn_TC self"
proof (intro conjI impI)
  show "(\<exists>r. fst (predict_DRL_FP self c t dose_c cum dose_I c_C c_I c_T interval) = Inr r) \<longleftrightarrow>
      dt_cyto self \<noteq> 0 \<and> 16 \<le> length (log_p_cyto self) \<and>
      1 \<le> py_int (float64 (interval / dt_cyto self)) \<and> c \<noteq> []"
    unfolding predict_DRL_FP_Inr_iff by auto
next
  assume r: "fst (predict_DRL_FP self c t dose_c cum dose_I c_C c_I c_T interval)
      = Inr (uTC_pred, cum', c_C', c_I')"
  from predict_DRL_FP_InrD[OF r] obtain tc ti raw where
    d: "f_CSF1RI self c_C dose_c interval = Inr tc"
       "f_IGF1RI self c_I dose_I c_T interval = Inr ti"
       "net_u_CC self c (map (\<lambda>x. t) c) (map (\<lambda>x. last tc) c)
           (map (\<lambda>x. cum + sum_list tc) c) (map (\<lambda>x. last ti) c) = Inr raw"
       "length raw = length c" "uTC_pred = map (max 0) raw"
    by blast
  show "length uTC_pred = length c" using d(4,5) by simp
  show "\<forall>u \<in> set uTC_pred. 0 \<le> u" using d(5) by auto
  show "\<exists>tc ti raw.
         f_CSF1RI self c_C dose_c interval = Inr tc \<and>
         f_IGF1RI self c_I dose_I c_T interval = Inr ti \<and>
         net_u_CC self c (map (\<lambda>x. t) c) (map (\<lambda>x. last tc) c)
           (map (\<lambda>x. cum + sum_list tc) c) (map (\<lambda>x. last ti) c) = Inr raw \<and>
         uTC_pred = map (max 0) raw"
    using d by blast
qed (simp_all add: snd_predict_DRL_FP)

text \<open>
  Witness of C3: a network that gives \<open>-5\<close> on the lowest bin; the density has the four
  entries \<open>0, 1, 1, 1\<close>.
\<close>

theorem predict_DRL_FP_density_witness:
  "fst (predict_DRL_FP (example_model (- 5)) example_cc example_dt 0 0 0 0 0 0.58 example_dt)
     = Inr ([0, 1, 1, 1], 0, 0, 0) \<and>
   length [0, 1, 1, 1 :: real] = length example_cc \<and>
   net_u_CC (example_model (- 5)) example_cc [example_dt, example_dt, example_dt, example_dt] [0, 0, 0, 0]
     [0, 0, 0, 0] [0, 0, 0, 0] = Inr [- 5, 1, 1, 1] \<and>
   [0, 1, 1, 1] = map (max 0) [- 5, 1, 1, 1 :: real] \<and>
   dt_cyto (example_model (- 5)) \<noteq> 0 \<and> 16 \<le> length (log_p_cyto (example_model (- 5))) \<and>
   1 \<le> py_int (float64 (example_dt / dt_cyto (example_model (- 5)))) \<and> example_cc \<noteq> []"
proof -
  have e: "fst (predict_DRL_FP (example_model (- 5)) example_cc example_dt 0 0 0 0 0 0.58 example_dt)
     = Inr ([0, 1, 1, 1], 0, 0, 0)"
    using example_predict[of "- 5" example_dt 0 "0.58"] by simp
  note t = predict_DRL_FP_density[of "example_model (- 5)" example_cc example_dt 0 0 0 0 0 "0.58" example_dt
      "[0, 1, 1, 1]" 0 0 0]
  from t e have "length [0, 1, 1, 1 :: real] = length example_cc" by blast
  moreover from t e have "dt_cyto (example_model (- 5)) \<noteq> 0 \<and>
      16 \<le> length (log_p_cyto (example_model (- 5))) \<and>
      1 \<le> py_int (float64 (example_dt / dt_cyto (example_model (- 5)))) \<and> example_cc \<noteq> []"
    by blast
  moreover have "net_u_CC (example_model (- 5)) example_cc [example_dt, example_dt, example_dt, example_dt] [0, 0, 0, 0]
     [0, 0, 0, 0] [0, 0, 0, 0] = Inr [- 5, 1, 1, 1]"
    by (rule example_net_u_CC)
  moreover have "[0, 1, 1, 1] = map (max 0) [- 5, 1, 1, 1 :: real]" by simp
  ultimately show ?thesis using e by blast
qed

subsection \<open>The rates of the two channels\<close>

text \<open>
  Claim C7. In both channels the rates are exponentials of trained log-parameters times
  the fixed constants. The \<open>b\<close> of the IGF1R-inhibitor channel is
  \<open>exp(log_p[14])*eta_i + exp(log_p[15])*mu_i*C_T\<close>: it changes with \<open>C_T\<close> by
  \<open>exp(log_p[15])*mu_i\<close> per unit, and the trajectory of \<^verbatim>\<open>f_IGF1RI\<close> is the
  recurrence with that \<open>b\<close>. The \<open>b\<close> of the CSF1R-inhibitor channel has no \<open>C_T\<close> in it:
  the trajectory of \<^verbatim>\<open>f_CSF1RI\<close> is the recurrence with
  \<open>exp(log_p[11])*eta_c + exp(log_p[12])*mu_c\<close>, and what \<^verbatim>\<open>predict_DRL_FP\<close> returns for
  that channel (cumulative exposure and final concentration) is the same for any two
  values of the tumor-cell expectation.
\<close>

theorem rates_from_log_parameters:
  "a_CSF1RI self = exp (log_p_cyto self ! 10) * q_c self \<and>
   b_CSF1RI self = exp (log_p_cyto self ! 11) * eta_c self + exp (log_p_cyto self ! 12) * mu_c self \<and>
   a_IGF1RI self = exp (log_p_cyto self ! 13) * q_i self \<and>
   b_IGF1RI self C_T =
     exp (log_p_cyto self ! 14) * eta_i self + exp (log_p_cyto self ! 15) * mu_i self * C_T \<and>
   b_IGF1RI self C_T' - b_IGF1RI self C_T = exp (log_p_cyto self ! 15) * mu_i self * (C_T' - C_T) \<and>
   (mu_i self \<noteq> 0 \<and> C_T \<noteq> C_T' \<longrightarrow> b_IGF1RI self C_T \<noteq> b_IGF1RI self C_T') \<and>
   (f_IGF1RI self c_0 dose C_T interval = Inr c \<longrightarrow>
      c ! 0 = closed_form (exp (log_p_cyto self ! 13) * q_i self)
                (exp (log_p_cyto self ! 14) * eta_i self + exp (log_p_cyto self ! 15) * mu_i self * C_T)
                dose (dt_cyto self) c_0 \<and>
      (\<forall>i. Suc i < length c \<longrightarrow>
         c ! Suc i = closed_form (exp (log_p_cyto self ! 13) * q_i self)
                (exp (log_p_cyto self ! 14) * eta_i self + exp (log_p_cyto self ! 15) * mu_i self * C_T)
                dose (dt_cyto self) (c ! i))) \<and>
   (f_CSF1RI self c_0 dose interval = Inr c' \<longrightarrow>
      c' ! 0 = closed_form (exp (log_p_cyto self ! 10) * q_c self)
                (exp (log_p_cyto self ! 11) * eta_c self + exp (log_p_cyto self ! 12) * mu_c self)
                dose (dt_cyto self) c_0 \<and>
      (\<forall>i. Suc i < length c' \<longrightarrow>
         c' ! Suc i = closed_form (exp (log_p_cyto self ! 10) * q_c self)
                (exp (log_p_cyto self ! 11) * eta_c self + exp (log_p_cyto self ! 12) * mu_c self)
                dose (dt_cyto self) (c' ! i))) \<and>
   (fst (predict_DRL_FP self bins t dose_c cum dose_I c_C c_I C_T interval) = Inr (u, cum1, c_C1, c_I1) \<and>
    fst (predict_DRL_FP self bins t dose_c cum dose_I c_C c_I C_T' interval) = Inr (u', cum2, c_C2, c_I2)
      \<longrightarrow> cum1 = cum2 \<and> c_C1 = c_C2)"
proof (intro conjI impI)
  show "b_IGF1RI self C_T' - b_IGF1RI self C_T = exp (log_p_cyto self ! 15) * mu_i self * (C_T' - C_T)"
    by (simp add: b_IGF1RI_def algebra_simps)
  assume "mu_i self \<noteq> 0 \<and> C_T \<noteq> C_T'"
  then show "b_IGF1RI self C_T \<noteq> b_IGF1RI self C_T'"
    by (simp add: b_IGF1RI_def)
next
  assume r: "f_IGF1RI self c_0 dose C_T interval = Inr c"
  from f_IGF1RI_Inr_props[OF r]
  show "c ! 0 = closed_form (exp (log_p_cyto self ! 13) * q_i self)
                (exp (log_p_cyto self ! 14) * eta_i self + exp (log_p_cyto self ! 15) * mu_i self * C_T)
                dose (dt_cyto self) c_0"
    and "\<forall>i. Suc i < length c \<longrightarrow>
         c ! Suc i = closed_form (exp (log_p_cyto self ! 13) * q_i self)
                (exp (log_p_cyto self ! 14) * eta_i self + exp (log_p_cyto self ! 15) * mu_i self * C_T)
                dose (dt_cyto self) (c ! i)"
    by (simp_all add: a_IGF1RI_def b_IGF1RI_def)
next
  assume r: "f_CSF1RI self c_0 dose interval = Inr c'"
  from f_CSF1RI_Inr_props[OF r]
  show "c' ! 0 = closed_form (exp (log_p_cyto self ! 10) * q_c self)
                (exp (log_p_cyto self ! 11) * eta_c self + exp (log_p_cyto self ! 12) * mu_c self)
                dose (dt_cyto self) c_0"
    and "\<forall>i. Suc i < length c' \<longrightarrow>
         c' ! Suc i = closed_form (exp (log_p_cyto self ! 10) * q_c self)
                (exp (log_p_cyto self ! 11) * eta_c self + exp (log_p_cyto self ! 12) * mu_c self)
                dose (dt_cyto self) (c' ! i)"
    by (simp_all add: a_CSF1RI_def b_CSF1RI_def)
next
  assume r: "fst (predict_DRL_FP self bins t dose_c cum dose_I c_C c_I C_T interval) = Inr (u, cum1, c_C1, c_I1) \<and>
    fst (predict_DRL_FP self bins t dose_c cum dose_I c_C c_I C_T' interval) = Inr (u', cum2, c_C2, c_I2)"
  from r predict_DRL_FP_InrD[of self bins t dose_c cum dose_I c_C c_I C_T interval u cum1 c_C1 c_I1]
  obtain tc where 1: "f_CSF1RI self c_C dose_c interval = Inr tc" "cum1 = cum + sum_list tc" "c_C1 = last tc"
    by blast
  from r predict_DRL_FP_InrD[of self bins t dose_c cum dose_I c_C c_I C_T' interval u' cum2 c_C2 c_I2]
  obtain tc' where 2: "f_CSF1RI self c_C dose_c interval = Inr tc'" "cum2 = cum + sum_list tc'" "c_C2 = last tc'"
    by blast
  from 1 2 show "cum1 = cum2" and "c_C1 = c_C2" by simp_all
qed (simp_all add: a_CSF1RI_def b_CSF1RI_def a_IGF1RI_def b_IGF1RI_def)

text \<open>
  Witness of C7: in the instance \<open>b\<close> of the IGF1R-inhibitor channel is
  \<open>0.002 + 0.002 * C_T\<close>, different at \<open>C_T = 0.58\<close> and \<open>C_T = 1\<close>; one substep with
  dose 0 from concentration 0 stays at 0 in both channels; the prediction gives the same
  CSF1R-inhibitor results for both values of \<open>C_T\<close>.
\<close>

theorem rates_from_log_parameters_witness:
  "b_IGF1RI (example_model 1) 0.58 \<noteq> b_IGF1RI (example_model 1) 1 \<and>
   b_IGF1RI (example_model 1) 1 - b_IGF1RI (example_model 1) 0.58 = 0.002 * (1 - 0.58) \<and>
   f_IGF1RI (example_model 1) 0 0 0.58 example_dt = Inr [0] \<and>
   [0 :: real] ! 0 = closed_form 0.8 (0.002 + 0.002 * 0.58) 0 example_dt 0 \<and>
   f_CSF1RI (example_model 1) 0 0 example_dt = Inr [0] \<and>
   [0 :: real] ! 0 = closed_form 0.8 (0.002 + 0.002) 0 example_dt 0 \<and>
   fst (predict_DRL_FP (example_model 1) example_cc example_dt 0 0 0 0 0 0.58 example_dt)
     = Inr ([1, 1, 1, 1], 0, 0, 0) \<and>
   fst (predict_DRL_FP (example_model 1) example_cc example_dt 0 0 0 0 0 1 example_dt)
     = Inr ([1, 1, 1, 1], 0, 0, 0)"
proof -
  have m: "mu_i (example_model 1) = 0.002" "eta_i (example_model 1) = 0.002"
    "q_i (example_model 1) = 0.8" "q_c (example_model 1) = 0.8"
    "eta_c (example_model 1) = 0.002" "mu_c (example_model 1) = 0.002"
    by (simp_all add: example_model_def)
  have fi: "f_IGF1RI (example_model 1) 0 0 0.58 example_dt = Inr [0]" by (rule example_f_IGF1RI)
  have fc: "f_CSF1RI (example_model 1) 0 0 example_dt = Inr [0]" by (rule example_f_CSF1RI)
  have p1: "fst (predict_DRL_FP (example_model 1) example_cc example_dt 0 0 0 0 0 0.58 example_dt)
     = Inr ([1, 1, 1, 1], 0, 0, 0)"
    using example_predict[of 1 example_dt 0 "0.58"] by simp
  have p2: "fst (predict_DRL_FP (example_model 1) example_cc example_dt 0 0 0 0 0 1 example_dt)
     = Inr ([1, 1, 1, 1], 0, 0, 0)"
    using example_predict[of 1 example_dt 0 1] by simp
  note t = rates_from_log_parameters[of "example_model 1" "0.58" 1 0 0 example_dt "[0]" "[0]"
      example_cc example_dt 0 0 0 0 0 "[1, 1, 1, 1]" 0 0 0 "[1, 1, 1, 1]" 0 0 0]
  from t m have "b_IGF1RI (example_model 1) 0.58 \<noteq> b_IGF1RI (example_model 1) 1" by simp
  moreover from t m have "b_IGF1RI (example_model 1) 1 - b_IGF1RI (example_model 1) 0.58 = 0.002 * (1 - 0.58)"
    by (simp add: example_model_simps)
  moreover from t fi m have "[0 :: real] ! 0 = closed_form 0.8 (0.002 + 0.002 * 0.58) 0 example_dt 0"
    by (simp add: example_model_simps)
  moreover from t fc m have "[0 :: real] ! 0 = closed_form 0.8 (0.002 + 0.002) 0 example_dt 0"
    by (simp add: example_model_simps)
  ultimately show ?thesis using fi fc p1 p2 by blast
qed

subsection \<open>The step of the environment\<close>

lemma fst_step_predict:
  "fst (step_predict self action_c action_I predict_dt cc) =
     (case py_get (action_c_space self) action_c of
        Inl e \<Rightarrow> Inl e
      | Inr dose_c \<Rightarrow>
     (case py_get (action_I_space self) action_I of
        Inl e \<Rightarrow> Inl e
      | Inr dose_I \<Rightarrow>
     (case py_get (predict_CSF1RI_list self) (- 1) of
        Inl e \<Rightarrow> Inl e
      | Inr c_C \<Rightarrow>
     (case py_get (predict_IGF1RI_list self) (- 1) of
        Inl e \<Rightarrow> Inl e
      | Inr c_I \<Rightarrow>
     (case py_get (predict_TC_list self) (- 1) of
        Inl e \<Rightarrow> Inl e
      | Inr c_T \<Rightarrow>
     (case fst (predict_DRL_FP (surrogat_model self) cc (float64 (time self + predict_dt)) dose_c
                 (predict_CSF1RI_cum self) dose_I c_C c_I c_T predict_dt) of
        Inl e \<Rightarrow> Inl e
      | Inr (rl_FP_TC, c_cum, c_C', c_I') \<Rightarrow> Inr (dose_c, dose_I, rl_FP_TC, c_cum, c_C', c_I')))))))"
  by (simp add: step_predict_def Let_def split: sum.splits prod.splits)

lemma snd_step_predict:
  "time (snd (step_predict self action_c action_I predict_dt cc)) = float64 (time self + predict_dt)"
  "state (snd (step_predict self action_c action_I predict_dt cc)) = state self"
  "action_c_space (snd (step_predict self action_c action_I predict_dt cc)) = action_c_space self"
  "action_I_space (snd (step_predict self action_c action_I predict_dt cc)) = action_I_space self"
  "initial (snd (step_predict self action_c action_I predict_dt cc)) = initial self"
  "predict_CSF1RI_list (snd (step_predict self action_c action_I predict_dt cc)) = predict_CSF1RI_list self"
  "predict_IGF1RI_list (snd (step_predict self action_c action_I predict_dt cc)) = predict_IGF1RI_list self"
  "predict_TC_list (snd (step_predict self action_c action_I predict_dt cc)) = predict_TC_list self"
  "last_state_survival (snd (step_predict self action_c action_I predict_dt cc)) = last_state_survival self"
  by (simp_all add: step_predict_def Let_def split: sum.splits prod.splits)

lemma dose_cum_step_predict:
  "fst (step_predict self action_c action_I predict_dt cc) = Inr (dose_c, dose_I, rl, c_cum, c_C, c_I) \<Longrightarrow>
   CSF1RI_dose_cum (snd (step_predict self action_c action_I predict_dt cc))
     = float64 (CSF1RI_dose_cum self + float64 (dose_c * predict_dt))"
  by (auto simp: step_predict_def Let_def split: sum.splits prod.splits)

lemma model_step_predict:
  "surrogat_model (snd (step_predict self action_c action_I predict_dt cc)) = surrogat_model self \<or>
   surrogat_model (snd (step_predict self action_c action_I predict_dt cc))
     = (surrogat_model self)\<lparr>training := False\<rparr>"
proof -
  have "snd (predict_DRL_FP m c t d cum dI a b ct i) = m\<lparr>training := False\<rparr>" for m c t d cum dI a b ct i
    by (rule snd_predict_DRL_FP)
  then have p: "predict_DRL_FP m c t d cum dI a b ct i = (r, m') \<Longrightarrow> m' = m\<lparr>training := False\<rparr>"
    for m c t d cum dI a b ct i r m'
    by (metis snd_conv)
  show ?thesis
    by (auto simp: step_predict_def Let_def split: sum.splits prod.splits dest: p)
qed

lemma step_Inl:
  "fst (step_predict self action_c action_I predict_dt cc) = Inl e \<Longrightarrow>
   step np self action_c action_I epi predict_dt cc lamda
     = (Inl e, snd (step_predict self action_c action_I predict_dt cc))"
  by (cases "step_predict self action_c action_I predict_dt cc") (simp add: step_def)

lemma step_Inr:
  assumes "fst (step_predict self action_c action_I predict_dt cc) = Inr (dose_c, dose_I, rl, c_cum, c_C, c_I)"
  shows "step np self action_c action_I epi predict_dt cc lamda =
    (Inr (state self,
          fst (reward_function (death_prob np rl) (cure_prob np rl) (survival_prob np rl)
                 action_c action_I (dose_punish self) lamda (float64 (time self + predict_dt))
                 (float64 (CSF1RI_dose_cum self + float64 (dose_c * predict_dt)))),
          snd (reward_function (death_prob np rl) (cure_prob np rl) (survival_prob np rl)
                 action_c action_I (dose_punish self) lamda (float64 (time self + predict_dt))
                 (float64 (CSF1RI_dose_cum self + float64 (dose_c * predict_dt)))),
          state self @ [(state_survival np rl,
                         if epi = 0 then 0 else state_survival np rl - last_state_survival self)]),
     (snd (step_predict self action_c action_I predict_dt cc))
       \<lparr> predict_CSF1RI_cum := c_cum,
         predict_CSF1RI_list := predict_CSF1RI_list self @ [c_C],
         predict_IGF1RI_list := predict_IGF1RI_list self @ [c_I],
         predict_TC_list := predict_TC_list self @ [TC_expectation rl cc],
         state := state self @ [(state_survival np rl,
                         if epi = 0 then 0 else state_survival np rl - last_state_survival self)],
         last_state_survival := state_survival np rl \<rparr>)"
proof -
  obtain r s where rs: "step_predict self action_c action_I predict_dt cc = (r, s)"
    by (cases "step_predict self action_c action_I predict_dt cc")
  with assms have r: "r = Inr (dose_c, dose_I, rl, c_cum, c_C, c_I)" by simp
  have s: "time s = float64 (time self + predict_dt)" "state s = state self"
    "action_c_space s = action_c_space self"
    "predict_CSF1RI_list s = predict_CSF1RI_list self"
    "predict_IGF1RI_list s = predict_IGF1RI_list self"
    "predict_TC_list s = predict_TC_list self"
    "last_state_survival s = last_state_survival self"
    using snd_step_predict[of self action_c action_I predict_dt cc] rs by simp_all
  have d: "CSF1RI_dose_cum s = float64 (CSF1RI_dose_cum self + float64 (dose_c * predict_dt))"
    using dose_cum_step_predict[OF assms] rs by simp
  show ?thesis
    by (simp add: step_def rs r s d Let_def dose_punish_def split_beta)
qed

lemma step_predict_nonneg:
  assumes "fst (step_predict self action_c action_I predict_dt cc) = Inr (dose_c, dose_I, rl, c_cum, c_C, c_I)"
  shows "length rl = length cc" "\<forall>u \<in> set rl. 0 \<le> u"
proof -
  from assms obtain c_C0 c_I0 c_T0 where
    p: "fst (predict_DRL_FP (surrogat_model self) cc (float64 (time self + predict_dt)) dose_c
               (predict_CSF1RI_cum self) dose_I c_C0 c_I0 c_T0 predict_dt) = Inr (rl, c_cum, c_C, c_I)"
    by (auto simp: fst_step_predict split: sum.splits prod.splits)
  from predict_DRL_FP_InrD[OF p] obtain raw where
    r: "length raw = length cc" "rl = map (max 0) raw"
    by blast
  show "length rl = length cc" using r by simp
  show "\<forall>u \<in> set rl. 0 \<le> u" using r by auto
qed



lemma example_env_simps:
  "state (example_env w) = []"
  "last_state_survival (example_env w) = 0"
  "time (example_env w) = 0"
  "CSF1RI_dose_cum (example_env w) = 0"
  "action_c_space (example_env w) = [0, 1]"
  by (simp_all add: example_env_def Env_init_def)







subsection \<open>The expectation of the tumor-cell count\<close>










subsection \<open>The terminal branches of the reward\<close>







subsection \<open>The change of the survival probability\<close>



subsection \<open>The reward of a non-terminal step\<close>




subsection \<open>The bins of the survival probability\<close>




subsection \<open>Sequences of calls\<close>

lemma since_reset_no_reset: "Reset \<notin> set calls \<Longrightarrow> since_reset calls = calls"
  by (induction calls) auto

lemma step_time:
  "time (snd (step np self action_c action_I epi predict_dt cc lamda)) = float64 (time self + predict_dt)"
proof (cases "fst (step_predict self action_c action_I predict_dt cc)")
  case (Inl e)
  then show ?thesis by (simp add: step_Inl snd_step_predict)
next
  case (Inr x)
  obtain dose_c dose_I rl c_cum c_C c_I where "x = (dose_c, dose_I, rl, c_cum, c_C, c_I)"
    by (cases x) auto
  with Inr show ?thesis by (simp add: step_Inr snd_step_predict)
qed

lemma step_predict_model:
  assumes "fst (step_predict self action_c action_I predict_dt cc) = Inr x"
  shows "surrogat_model (snd (step_predict self action_c action_I predict_dt cc))
           = (surrogat_model self)\<lparr>training := False\<rparr>"
proof -
  have p: "predict_DRL_FP m c t d cum dI a b ct i = (r, m') \<Longrightarrow> m' = m\<lparr>training := False\<rparr>"
    for m c t d cum dI a b ct i r m'
    using snd_predict_DRL_FP[of m c t d cum dI a b ct i] by simp
  show ?thesis
    using assms by (auto simp: step_predict_def Let_def split: sum.splits prod.splits dest: p)
qed

lemma step_success:
  assumes "fst (step np self action_c action_I epi predict_dt cc lamda) = Inr r"
  shows "length (predict_CSF1RI_list (snd (step np self action_c action_I epi predict_dt cc lamda)))
           = length (predict_CSF1RI_list self) + 1"
    and "length (predict_IGF1RI_list (snd (step np self action_c action_I epi predict_dt cc lamda)))
           = length (predict_IGF1RI_list self) + 1"
    and "length (predict_TC_list (snd (step np self action_c action_I epi predict_dt cc lamda)))
           = length (predict_TC_list self) + 1"
    and "length (state (snd (step np self action_c action_I epi predict_dt cc lamda)))
           = length (state self) + 1"
    and "initial (snd (step np self action_c action_I epi predict_dt cc lamda)) = initial self"
    and "dt_cyto (surrogat_model (snd (step np self action_c action_I epi predict_dt cc lamda)))
           = dt_cyto (surrogat_model self)"
    and "1 \<le> py_int (float64 (predict_dt / dt_cyto (surrogat_model self)))"
proof -
  have "\<exists>x. fst (step_predict self action_c action_I predict_dt cc) = Inr x"
  proof (cases "fst (step_predict self action_c action_I predict_dt cc)")
    case (Inl e)
    with assms show ?thesis by (simp add: step_Inl)
  next
    case (Inr x)
    then show ?thesis by blast
  qed
  then obtain dose_c dose_I rl c_cum c_C c_I where
    p: "fst (step_predict self action_c action_I predict_dt cc) = Inr (dose_c, dose_I, rl, c_cum, c_C, c_I)"
    by (metis prod_cases6)
  note s = step_Inr[OF p, of np epi lamda]
  show "length (predict_CSF1RI_list (snd (step np self action_c action_I epi predict_dt cc lamda)))
           = length (predict_CSF1RI_list self) + 1"
    and "length (predict_IGF1RI_list (snd (step np self action_c action_I epi predict_dt cc lamda)))
           = length (predict_IGF1RI_list self) + 1"
    and "length (predict_TC_list (snd (step np self action_c action_I epi predict_dt cc lamda)))
           = length (predict_TC_list self) + 1"
    and "length (state (snd (step np self action_c action_I epi predict_dt cc lamda)))
           = length (state self) + 1"
    and "initial (snd (step np self action_c action_I epi predict_dt cc lamda)) = initial self"
    by (simp_all add: s snd_step_predict)
  show "dt_cyto (surrogat_model (snd (step np self action_c action_I epi predict_dt cc lamda)))
           = dt_cyto (surrogat_model self)"
    by (simp add: s step_predict_model[OF p])
  from p obtain c_C0 c_I0 c_T0 where
    "fst (predict_DRL_FP (surrogat_model self) cc (float64 (time self + predict_dt)) dose_c
               (predict_CSF1RI_cum self) dose_I c_C0 c_I0 c_T0 predict_dt) = Inr (rl, c_cum, c_C, c_I)"
    by (auto simp: fst_step_predict split: sum.splits prod.splits)
  then show "1 \<le> py_int (float64 (predict_dt / dt_cyto (surrogat_model self)))"
    using predict_DRL_FP_Inr_iff[of "surrogat_model self" cc "float64 (time self + predict_dt)"
            dose_c "predict_CSF1RI_cum self" dose_I c_C0 c_I0 c_T0 predict_dt]
    by blast
qed

lemma substeps_pos:
  assumes "0 < d" and "1 \<le> py_int (float64 (x / d))"
  shows "0 < x"
proof (rule ccontr)
  assume "\<not> 0 < x"
  then have "x / d \<le> 0" using assms(1) by (simp add: divide_nonpos_pos)
  then have "float64 (x / d) \<le> 0" using float64_mono[of "x / d" 0] by simp
  then have "\<not> 1 \<le> float64 (x / d)" by simp
  with assms(2) show False by (simp add: py_int_ge_1)
qed

lemma is_float64_clock: "is_float64 t \<Longrightarrow> is_float64 (clock t intervals)"
  by (induction intervals arbitrary: t) simp_all

lemma run_invariant:
  assumes "run np e0 calls = Inr e"
  shows "initial e = initial e0 \<and>
         dt_cyto (surrogat_model e) = dt_cyto (surrogat_model e0) \<and>
         length (predict_CSF1RI_list e)
           = (if Reset \<in> set calls then 1 else length (predict_CSF1RI_list e0))
             + length (since_reset calls) \<and>
         length (predict_IGF1RI_list e)
           = (if Reset \<in> set calls then 1 else length (predict_IGF1RI_list e0))
             + length (since_reset calls) \<and>
         length (predict_TC_list e)
           = (if Reset \<in> set calls then 1 else length (predict_TC_list e0))
             + length (since_reset calls) \<and>
         length (state e)
           = (if Reset \<in> set calls then 0 else length (state e0)) + length (since_reset calls) \<and>
         time e = clock (if Reset \<in> set calls then 0 else time e0)
                    (map interval_of (since_reset calls))"
  using assms
proof (induction calls arbitrary: e0)
  case Nil
  then show ?case by simp
next
  case (Cons c calls)
  show ?case
  proof (cases c)
    case Reset
    with Cons.prems have r: "run np (reset e0) calls = Inr e" by simp
    note ih = Cons.IH[OF r]
    show ?thesis
    proof (cases "Reset \<in> set calls")
      case True
      with ih Reset show ?thesis by (simp add: reset_def)
    next
      case False
      with ih Reset show ?thesis by (simp add: reset_def since_reset_no_reset)
    qed
  next
    case (Step action_c action_I epi predict_dt cc lamda)
    obtain r e1 where s: "step np e0 action_c action_I epi predict_dt cc lamda = (r, e1)"
      by (cases "step np e0 action_c action_I epi predict_dt cc lamda")
    with Cons.prems Step obtain res where res: "r = Inr res" and run1: "run np e1 calls = Inr e"
      by (cases r) simp_all
    have f: "fst (step np e0 action_c action_I epi predict_dt cc lamda) = Inr res"
      using s res by simp
    have e1: "e1 = snd (step np e0 action_c action_I epi predict_dt cc lamda)" using s by simp
    note st = step_success[OF f, folded e1] step_time[of np e0 action_c action_I epi predict_dt cc lamda, folded e1]
    note ih = Cons.IH[OF run1]
    show ?thesis
    proof (cases "Reset \<in> set calls")
      case True
      with ih Step st show ?thesis by simp
    next
      case False
      with ih Step st show ?thesis by (simp add: since_reset_no_reset)
    qed
  qed
qed

lemma predict_training:
  "fst (predict_DRL_FP (self\<lparr>training := b\<rparr>) c t dose_c cum dose_I c_C c_I c_T interval)
     = fst (predict_DRL_FP self c t dose_c cum dose_I c_C c_I c_T interval)"
  by (simp add: predict_DRL_FP_def)

lemma example_step:
  assumes "action_c_space e = [0, 1]" and "action_I_space e = [0, 1]"
    and "surrogat_model e = (example_model w)\<lparr>training := b\<rparr>" and "initial e = (0, 0, 0.58)"
    and "predict_CSF1RI_list e \<noteq> [] \<and> last (predict_CSF1RI_list e) = 0"
    and "predict_IGF1RI_list e \<noteq> [] \<and> last (predict_IGF1RI_list e) = 0"
    and "predict_TC_list e \<noteq> []" and "0 \<le> w"
  shows "\<exists>r e'. step np e 0 0 epi example_dt example_cc lamda = (Inr r, e') \<and>
           action_c_space e' = [0, 1] \<and> action_I_space e' = [0, 1] \<and>
           surrogat_model e' = (example_model w)\<lparr>training := False\<rparr> \<and> initial e' = (0, 0, 0.58) \<and>
           (predict_CSF1RI_list e' \<noteq> [] \<and> last (predict_CSF1RI_list e') = 0) \<and>
           (predict_IGF1RI_list e' \<noteq> [] \<and> last (predict_IGF1RI_list e') = 0) \<and>
           predict_TC_list e' \<noteq> []"
proof -
  have a: "py_get (action_c_space e) 0 = Inr 0" "py_get (action_I_space e) 0 = Inr 0"
    using assms(1,2) by (simp_all add: py_get_def)
  have p: "fst (step_predict e 0 0 example_dt example_cc)
             = Inr (0, 0, [w, 1, 1, 1], predict_CSF1RI_cum e, 0, 0)"
    using assms(3,5,6,7,8)
    by (simp add: fst_step_predict a py_get_last predict_training example_predict)
  note s = step_Inr[OF p, of np epi lamda]
  show ?thesis
    using assms(1,2,3,4)
    by (simp add: s snd_step_predict step_predict_model[OF p])
qed

lemma example_reset:
  assumes "action_c_space e = [0, 1]" and "action_I_space e = [0, 1]"
    and "surrogat_model e = (example_model w)\<lparr>training := b\<rparr>" and "initial e = (0, 0, 0.58)"
  shows "action_c_space (reset e) = [0, 1] \<and> action_I_space (reset e) = [0, 1] \<and>
         surrogat_model (reset e) = (example_model w)\<lparr>training := b\<rparr> \<and>
         initial (reset e) = (0, 0, 0.58) \<and>
         (predict_CSF1RI_list (reset e) \<noteq> [] \<and> last (predict_CSF1RI_list (reset e)) = 0) \<and>
         (predict_IGF1RI_list (reset e) \<noteq> [] \<and> last (predict_IGF1RI_list (reset e)) = 0) \<and>
         predict_TC_list (reset e) \<noteq> []"
  using assms by (simp add: reset_def)

lemma example_env_ready:
  "action_c_space (example_env w) = [0, 1] \<and> action_I_space (example_env w) = [0, 1] \<and>
   surrogat_model (example_env w) = (example_model w)\<lparr>training := True\<rparr> \<and>
   initial (example_env w) = (0, 0, 0.58) \<and>
   (predict_CSF1RI_list (example_env w) \<noteq> [] \<and> last (predict_CSF1RI_list (example_env w)) = 0) \<and>
   (predict_IGF1RI_list (example_env w) \<noteq> [] \<and> last (predict_IGF1RI_list (example_env w)) = 0) \<and>
   predict_TC_list (example_env w) \<noteq> []"
  by (simp add: example_env_def Env_init_def example_model_def)

lemma example_run_steps:
  assumes "action_c_space e = [0, 1]" and "action_I_space e = [0, 1]"
    and "surrogat_model e = (example_model w)\<lparr>training := b\<rparr>" and "initial e = (0, 0, 0.58)"
    and "predict_CSF1RI_list e \<noteq> [] \<and> last (predict_CSF1RI_list e) = 0"
    and "predict_IGF1RI_list e \<noteq> [] \<and> last (predict_IGF1RI_list e) = 0"
    and "predict_TC_list e \<noteq> []" and "0 \<le> w"
    and "\<forall>c \<in> set calls. c = Reset \<or> (\<exists>epi lamda. c = Step 0 0 epi example_dt example_cc lamda)"
  shows "\<exists>e' b'. run np e calls = Inr e' \<and>
           action_c_space e' = [0, 1] \<and> action_I_space e' = [0, 1] \<and>
           surrogat_model e' = (example_model w)\<lparr>training := b'\<rparr> \<and> initial e' = (0, 0, 0.58) \<and>
           (predict_CSF1RI_list e' \<noteq> [] \<and> last (predict_CSF1RI_list e') = 0) \<and>
           (predict_IGF1RI_list e' \<noteq> [] \<and> last (predict_IGF1RI_list e') = 0) \<and>
           predict_TC_list e' \<noteq> []"
  using assms
proof (induction calls arbitrary: e b)
  case Nil
  then show ?case by auto
next
  case (Cons c calls)
  from Cons.prems(9) have cs: "c = Reset \<or> (\<exists>epi lamda. c = Step 0 0 epi example_dt example_cc lamda)"
    and rest: "\<forall>c \<in> set calls. c = Reset \<or> (\<exists>epi lamda. c = Step 0 0 epi example_dt example_cc lamda)"
    by simp_all
  from cs show ?case
  proof
    assume c: "c = Reset"
    from example_reset[OF Cons.prems(1,2,3,4)]
    have "\<exists>e' b'. run np (reset e) calls = Inr e' \<and>
           action_c_space e' = [0, 1] \<and> action_I_space e' = [0, 1] \<and>
           surrogat_model e' = (example_model w)\<lparr>training := b'\<rparr> \<and> initial e' = (0, 0, 0.58) \<and>
           (predict_CSF1RI_list e' \<noteq> [] \<and> last (predict_CSF1RI_list e') = 0) \<and>
           (predict_IGF1RI_list e' \<noteq> [] \<and> last (predict_IGF1RI_list e') = 0) \<and>
           predict_TC_list e' \<noteq> []"
      using Cons.prems(8) rest by (intro Cons.IH[where e = "reset e" and b = b]) simp_all
    then show ?thesis using c by simp
  next
    assume "\<exists>epi lamda. c = Step 0 0 epi example_dt example_cc lamda"
    then obtain epi lamda where c: "c = Step 0 0 epi example_dt example_cc lamda" by blast
    from example_step[OF Cons.prems(1-8), of np epi lamda] obtain r e1 where
      s: "step np e 0 0 epi example_dt example_cc lamda = (Inr r, e1)" and
      e1: "action_c_space e1 = [0, 1]" "action_I_space e1 = [0, 1]"
          "surrogat_model e1 = (example_model w)\<lparr>training := False\<rparr>" "initial e1 = (0, 0, 0.58)"
          "predict_CSF1RI_list e1 \<noteq> [] \<and> last (predict_CSF1RI_list e1) = 0"
          "predict_IGF1RI_list e1 \<noteq> [] \<and> last (predict_IGF1RI_list e1) = 0"
          "predict_TC_list e1 \<noteq> []"
      by blast
    have "\<exists>e' b'. run np e1 calls = Inr e' \<and>
           action_c_space e' = [0, 1] \<and> action_I_space e' = [0, 1] \<and>
           surrogat_model e' = (example_model w)\<lparr>training := b'\<rparr> \<and> initial e' = (0, 0, 0.58) \<and>
           (predict_CSF1RI_list e' \<noteq> [] \<and> last (predict_CSF1RI_list e') = 0) \<and>
           (predict_IGF1RI_list e' \<noteq> [] \<and> last (predict_IGF1RI_list e') = 0) \<and>
           predict_TC_list e' \<noteq> []"
      using e1 Cons.prems(8) rest by (intro Cons.IH[where e = e1 and b = False]) simp_all
    then show ?thesis using c s by simp
  qed
qed

lemma example_clock:
  "clock 0 [example_dt] = example_dt"
  "clock 0 [example_dt, example_dt] = 2 * example_dt"
  "clock 0 [example_dt, example_dt, example_dt] = 1 / 16"
  by (simp_all add: example_dt_value float64_def round_float_def float_exponent_def round_even_def)

text \<open>
  Claim C6 does not hold for every sequence of calls. A \<^verbatim>\<open>reset\<close> puts the clock back to
  0: after one step of \<^verbatim>\<open>1/48\<close> the time is \<^verbatim>\<open>1/48\<close>, after the \<^verbatim>\<open>reset\<close> that follows it
  is 0. And \<^verbatim>\<open>self.time += predict_dt\<close> is a float addition: after two steps of \<^verbatim>\<open>1/48\<close>
  the time is twice that float, after the third it is \<open>1/16\<close>, so the third step has
  moved the clock by more than the interval it was given.
\<close>

theorem run_time_not_monotone:
  "(\<exists>e. run float32 (example_env 13) [Step 0 0 0 example_dt example_cc 0] = Inr e \<and>
        time e = example_dt) \<and>
   (\<exists>e. run float32 (example_env 13) [Step 0 0 0 example_dt example_cc 0, Reset] = Inr e \<and>
        time e = 0) \<and>
   0 < example_dt \<and>
   (\<exists>e. run float32 (example_env 13)
           [Step 0 0 0 example_dt example_cc 0, Step 0 0 0 example_dt example_cc 0] = Inr e \<and>
        time e = 2 * example_dt) \<and>
   (\<exists>e. run float32 (example_env 13)
           [Step 0 0 0 example_dt example_cc 0, Step 0 0 0 example_dt example_cc 0,
            Step 0 0 0 example_dt example_cc 0] = Inr e \<and>
        time e = 1 / 16) \<and>
   1 / 16 - 2 * example_dt \<noteq> example_dt"
proof -
  note r = example_env_ready[of 13]
  have ex: "\<exists>e. run float32 (example_env 13) calls = Inr e"
    if "\<forall>c \<in> set calls. c = Reset \<or> (\<exists>epi lamda. c = Step 0 0 epi example_dt example_cc lamda)"
    for calls
  proof -
    have "\<exists>e' b'. run float32 (example_env 13) calls = Inr e' \<and>
           action_c_space e' = [0, 1] \<and> action_I_space e' = [0, 1] \<and>
           surrogat_model e' = (example_model 13)\<lparr>training := b'\<rparr> \<and> initial e' = (0, 0, 0.58) \<and>
           (predict_CSF1RI_list e' \<noteq> [] \<and> last (predict_CSF1RI_list e') = 0) \<and>
           (predict_IGF1RI_list e' \<noteq> [] \<and> last (predict_IGF1RI_list e') = 0) \<and>
           predict_TC_list e' \<noteq> []"
      using r that
      by (intro example_run_steps[where e = "example_env 13" and w = 13 and b = True]) simp_all
    then show ?thesis by blast
  qed
  have t: "time e = clock 0 (map interval_of (since_reset calls))"
    if "run float32 (example_env 13) calls = Inr e" for e calls
    using run_invariant[OF that] by (simp add: example_env_simps)
  have a: "\<exists>e. run float32 (example_env 13) [Step 0 0 0 example_dt example_cc 0] = Inr e \<and>
        time e = example_dt"
    using ex[of "[Step 0 0 0 example_dt example_cc 0]"] t example_clock(1) by fastforce
  have b: "\<exists>e. run float32 (example_env 13) [Step 0 0 0 example_dt example_cc 0, Reset] = Inr e \<and>
        time e = 0"
    using ex[of "[Step 0 0 0 example_dt example_cc 0, Reset]"] t by fastforce
  have c: "\<exists>e. run float32 (example_env 13)
           [Step 0 0 0 example_dt example_cc 0, Step 0 0 0 example_dt example_cc 0] = Inr e \<and>
        time e = 2 * example_dt"
    using ex[of "[Step 0 0 0 example_dt example_cc 0, Step 0 0 0 example_dt example_cc 0]"]
      t example_clock(2) by fastforce
  have d: "\<exists>e. run float32 (example_env 13)
           [Step 0 0 0 example_dt example_cc 0, Step 0 0 0 example_dt example_cc 0,
            Step 0 0 0 example_dt example_cc 0] = Inr e \<and>
        time e = 1 / 16"
    using ex[of "[Step 0 0 0 example_dt example_cc 0, Step 0 0 0 example_dt example_cc 0,
            Step 0 0 0 example_dt example_cc 0]"]
      t example_clock(3) by fastforce
  have n: "1 / 16 - 2 * example_dt \<noteq> example_dt" by (simp add: example_dt_value)
  from a b c d n example_dt_pos(1) show ?thesis by blast
qed

text \<open>
  Claim C6, amended. After a sequence of \<^verbatim>\<open>reset\<close> and \<^verbatim>\<open>step\<close> calls on a new
  environment, none of which raised: each concentration history has 1 + the number of
  steps since the last \<^verbatim>\<open>reset\<close> entries (since the construction, when there was none),
  the observation history has as many entries as steps were taken since then, and the
  time is the float sum of the intervals of these steps. A \<^verbatim>\<open>reset\<close> leaves histories of
  length 1, an empty observation history and the time 0. A \<^verbatim>\<open>step\<close> moves the time to
  the float nearest to \<^verbatim>\<open>time + predict_dt\<close>, also when it raises, so the time does not
  decrease when the interval is not negative; a step that returns has appended one
  entry to each history, and over a positive substep size its interval is positive.
\<close>

theorem run_histories:
  assumes "run np (Env_init model initial0) calls = Inr self"
  shows "length (predict_CSF1RI_list self) = 1 + length (since_reset calls) \<and>
         length (predict_IGF1RI_list self) = 1 + length (since_reset calls) \<and>
         length (predict_TC_list self) = 1 + length (since_reset calls) \<and>
         length (state self) = length (since_reset calls) \<and>
         time self = clock 0 (map interval_of (since_reset calls)) \<and>
         state (reset self) = [] \<and> time (reset self) = 0 \<and>
         length (predict_CSF1RI_list (reset self)) = 1 \<and>
         length (predict_IGF1RI_list (reset self)) = 1 \<and>
         length (predict_TC_list (reset self)) = 1 \<and>
         time (snd (step np self action_c action_I epi predict_dt cc lamda))
           = float64 (time self + predict_dt) \<and>
         (0 \<le> predict_dt \<longrightarrow>
            time self \<le> time (snd (step np self action_c action_I epi predict_dt cc lamda))) \<and>
         (fst (step np self action_c action_I epi predict_dt cc lamda) = Inr r \<longrightarrow>
            length (predict_CSF1RI_list (snd (step np self action_c action_I epi predict_dt cc lamda)))
              = length (predict_CSF1RI_list self) + 1 \<and>
            length (predict_IGF1RI_list (snd (step np self action_c action_I epi predict_dt cc lamda)))
              = length (predict_IGF1RI_list self) + 1 \<and>
            length (predict_TC_list (snd (step np self action_c action_I epi predict_dt cc lamda)))
              = length (predict_TC_list self) + 1 \<and>
            length (state (snd (step np self action_c action_I epi predict_dt cc lamda)))
              = length (state self) + 1 \<and>
            (0 < dt_cyto model \<longrightarrow> 0 < predict_dt))"
proof -
  note i = run_invariant[OF assms]
  have l: "length (predict_CSF1RI_list self) = 1 + length (since_reset calls)"
    "length (predict_IGF1RI_list self) = 1 + length (since_reset calls)"
    "length (predict_TC_list self) = 1 + length (since_reset calls)"
    "length (state self) = length (since_reset calls)"
    "time self = clock 0 (map interval_of (since_reset calls))"
    using i by (simp_all add: Env_init_def)
  have m: "dt_cyto (surrogat_model self) = dt_cyto model" using i by (simp add: Env_init_def)
  have rs: "state (reset self) = []" "time (reset self) = 0"
    "length (predict_CSF1RI_list (reset self)) = 1"
    "length (predict_IGF1RI_list (reset self)) = 1"
    "length (predict_TC_list (reset self)) = 1"
    by (simp_all add: reset_def)
  have st: "time (snd (step np self action_c action_I epi predict_dt cc lamda))
           = float64 (time self + predict_dt)"
    by (rule step_time)
  have fl: "is_float64 (time self)" unfolding l(5) by (rule is_float64_clock) simp
  have mono: "time self \<le> time (snd (step np self action_c action_I epi predict_dt cc lamda))"
    if "0 \<le> predict_dt"
  proof -
    have "float64 (time self) \<le> float64 (time self + predict_dt)"
      using that by (intro float64_mono) simp
    then show ?thesis using fl by (simp add: st is_float64_def)
  qed
  have su: "length (predict_CSF1RI_list (snd (step np self action_c action_I epi predict_dt cc lamda)))
              = length (predict_CSF1RI_list self) + 1 \<and>
            length (predict_IGF1RI_list (snd (step np self action_c action_I epi predict_dt cc lamda)))
              = length (predict_IGF1RI_list self) + 1 \<and>
            length (predict_TC_list (snd (step np self action_c action_I epi predict_dt cc lamda)))
              = length (predict_TC_list self) + 1 \<and>
            length (state (snd (step np self action_c action_I epi predict_dt cc lamda)))
              = length (state self) + 1 \<and>
            (0 < dt_cyto model \<longrightarrow> 0 < predict_dt)"
    if f: "fst (step np self action_c action_I epi predict_dt cc lamda) = Inr r"
    using step_success[OF f] substeps_pos[of "dt_cyto model" predict_dt] m by simp
  from l rs st mono su show ?thesis by blast
qed

text \<open>
  Witness of C6: a step, a \<^verbatim>\<open>reset\<close> and two steps, each step of \<^verbatim>\<open>1/48\<close>. The histories
  have 3 entries, there are 2 observations, and the time is twice the float \<^verbatim>\<open>1/48\<close>.
\<close>

theorem run_histories_witness:
  "\<exists>self. run float32 (Env_init (example_model 13) (0, 0, 0.58))
             [Step 0 0 0 example_dt example_cc 0, Reset,
              Step 0 0 1 example_dt example_cc 0, Step 0 0 1 example_dt example_cc 0] = Inr self \<and>
     length (predict_CSF1RI_list self) = 3 \<and>
     length (predict_IGF1RI_list self) = 3 \<and>
     length (predict_TC_list self) = 3 \<and>
     length (state self) = 2 \<and>
     time self = 2 * example_dt \<and>
     time (snd (step float32 self 0 0 1 example_dt example_cc 0)) = 1 / 16 \<and>
     time self \<le> time (snd (step float32 self 0 0 1 example_dt example_cc 0)) \<and>
     (\<exists>r. fst (step float32 self 0 0 1 example_dt example_cc 0) = Inr r) \<and>
     length (state (snd (step float32 self 0 0 1 example_dt example_cc 0))) = 3 \<and>
     length (predict_TC_list (snd (step float32 self 0 0 1 example_dt example_cc 0))) = 4"
proof -
  let ?calls = "[Step 0 0 0 example_dt example_cc 0, Reset,
              Step 0 0 1 example_dt example_cc 0, Step 0 0 1 example_dt example_cc 0]"
  note r = example_env_ready[of 13]
  have "\<exists>e' b'. run float32 (example_env 13) ?calls = Inr e' \<and>
           action_c_space e' = [0, 1] \<and> action_I_space e' = [0, 1] \<and>
           surrogat_model e' = (example_model 13)\<lparr>training := b'\<rparr> \<and> initial e' = (0, 0, 0.58) \<and>
           (predict_CSF1RI_list e' \<noteq> [] \<and> last (predict_CSF1RI_list e') = 0) \<and>
           (predict_IGF1RI_list e' \<noteq> [] \<and> last (predict_IGF1RI_list e') = 0) \<and>
           predict_TC_list e' \<noteq> []"
    using r by (intro example_run_steps[where e = "example_env 13" and w = 13 and b = True]) simp_all
  then obtain self b' where
    s: "run float32 (Env_init (example_model 13) (0, 0, 0.58)) ?calls = Inr self" and
    rd: "action_c_space self = [0, 1]" "action_I_space self = [0, 1]"
        "surrogat_model self = (example_model 13)\<lparr>training := b'\<rparr>" "initial self = (0, 0, 0.58)"
        "predict_CSF1RI_list self \<noteq> [] \<and> last (predict_CSF1RI_list self) = 0"
        "predict_IGF1RI_list self \<noteq> [] \<and> last (predict_IGF1RI_list self) = 0"
        "predict_TC_list self \<noteq> []"
    by (auto simp: example_env_def)
  have sr: "since_reset ?calls = [Step 0 0 1 example_dt example_cc 0, Step 0 0 1 example_dt example_cc 0]"
    by simp
  have ok: "\<exists>r. fst (step float32 self 0 0 1 example_dt example_cc 0) = Inr r"
    using example_step[OF rd, of float32 1 0] by auto
  then obtain res where res: "fst (step float32 self 0 0 1 example_dt example_cc 0) = Inr res"
    by blast
  note t = run_histories[OF s, of 0 0 1 example_dt example_cc 0 res]
  have pos: "0 \<le> example_dt" by (simp add: example_dt_value)
  from t have "time self = clock 0 (map interval_of (since_reset ?calls))" by blast
  then have tm: "time self = 2 * example_dt"
    unfolding sr by (simp del: clock.simps add: example_clock)
  have "float64 (2 * example_dt + example_dt) = 1 / 16"
    by (simp add: example_dt_value float64_def round_float_def float_exponent_def round_even_def)
  then have t3: "time (snd (step float32 self 0 0 1 example_dt example_cc 0)) = 1 / 16"
    using t tm by simp
  have mono: "time self \<le> time (snd (step float32 self 0 0 1 example_dt example_cc 0))"
    using t pos by blast
  have lens: "length (predict_CSF1RI_list self) = 3" "length (predict_IGF1RI_list self) = 3"
    "length (predict_TC_list self) = 3" "length (state self) = 2"
    using t by (simp_all add: sr del: clock.simps)
  from t res have
    "length (state (snd (step float32 self 0 0 1 example_dt example_cc 0))) = length (state self) + 1"
    "length (predict_TC_list (snd (step float32 self 0 0 1 example_dt example_cc 0)))
       = length (predict_TC_list self) + 1"
    by blast+
  then have after: "length (state (snd (step float32 self 0 0 1 example_dt example_cc 0))) = 3"
    "length (predict_TC_list (snd (step float32 self 0 0 1 example_dt example_cc 0))) = 4"
    using lens by simp_all
  from s lens mono after tm t3 ok show ?thesis by blast
qed

end
